theory Spec2Isabelle
  imports Complex_Main "HOL-Library.Log_Nat"
begin

section \<open>The time-stepping core of rebound (src/rebound.c)\<close>

text \<open>
  A shallow embedding of the three functions of \<^verbatim>\<open>src/rebound.c\<close>:
  \<^verbatim>\<open>rebound_step\<close>, \<^verbatim>\<open>rebound_init\<close> and \<^verbatim>\<open>rebound_integrate\<close>.

  Conventions of the embedding.
  \<^item> The value of a C \<^verbatim>\<open>double\<close> is a \<^typ>\<open>real\<close>. Every addition, subtraction and
    multiplication of doubles in \<^verbatim>\<open>rebound_integrate\<close> is the exact operation followed by
    the rounding \<open>fl\<close> of the machine, a parameter of the model: nothing is assumed about
    \<open>fl\<close> unless a theorem says so. The products with \<^verbatim>\<open>dtsign\<close>, which is 1 or -1, are
    exact. The examples run with \<open>round_double\<close>, the rounding to the nearest double of
    IEEE 754 (ties to even) with an unbounded exponent. Infinities, NaN, overflow,
    subnormal numbers and fused operations are outside the model. A real does not tell
    the two zeros apart, so \<^verbatim>\<open>copysign(1., r->dt)\<close> takes the sign of a zero timestep from
    a parameter, \<open>negative_zero\<close>. The decimal literals of \<^verbatim>\<open>rebound_init\<close> are written as
    the decimals they read.
  \<^item> A C \<^verbatim>\<open>int\<close> is an \<^typ>\<open>int\<close>: the only arithmetic on integers in the file is
    \<^verbatim>\<open>r->N - r->N_megno\<close> and increments of counters that stay below 3.
  \<^item> A function pointer is an address, a \<^typ>\<open>nat\<close>; \<^verbatim>\<open>NULL\<close> is \<open>0\<close>.
  \<^item> The fields \<^verbatim>\<open>t\<close>, \<^verbatim>\<open>G\<close>, \<^verbatim>\<open>dt\<close>, \<^verbatim>\<open>N\<close>, \<^verbatim>\<open>Nmax\<close> of \<^verbatim>\<open>struct Rebound\<close>
    are written \<open>r_t\<close>, \<open>r_G\<close>, \<open>r_dt\<close>, \<open>r_N\<close>, \<open>r_Nmax\<close> (read \<^verbatim>\<open>r->t\<close>), and the
    fields of \<^verbatim>\<open>struct Particle\<close> carry the prefix \<open>p_\<close>, so that one-letter names
    stay free for variables. Every other field keeps its name.
  \<^item> The functions that \<^verbatim>\<open>rebound.c\<close> calls and does not define (the integrator, the
    boundary, tree, gravity, collision and communication modules, the display, and the
    user's callbacks) are a parameter \<open>X\<close> of the model: \<open>X f\<close> is the effect of the
    external function \<open>f\<close> on the program state. Nothing is assumed about \<open>X\<close> unless a
    theorem says so.
  \<^item> Preprocessor switches are a record of booleans, \<open>build\<close>. The profiling macros
    \<^verbatim>\<open>PROFILING_START\<close> and \<^verbatim>\<open>PROFILING_STOP\<close> only take timings and are left out.
\<close>

subsection \<open>Data\<close>

text \<open>
  Modelled from the spec: \<^verbatim>\<open>struct Particle\<close> is declared in \<^verbatim>\<open>particle.h\<close>, which is not
  part of the sources at hand. \<^verbatim>\<open>rebound.c\<close> reads the members \<^verbatim>\<open>x\<close>, \<^verbatim>\<open>y\<close>, \<^verbatim>\<open>z\<close>;
  the spec lists position, velocity, mass and radius.
\<close>

record Particle =
  p_x :: real
  p_y :: real
  p_z :: real
  p_vx :: real
  p_vy :: real
  p_vz :: real
  p_m :: real
  p_r :: real

text \<open>
  Modelled from the spec: the enumeration of integrators is declared in \<^verbatim>\<open>rebound.h\<close>,
  which is not part of the sources at hand. \<^verbatim>\<open>rebound.c\<close> names \<^verbatim>\<open>IAS15\<close>; the spec names
  the symplectic variant WHFast and "others".
\<close>

datatype integrator_kind = IAS15 | WHFAST | OTHER_INTEGRATOR nat

text \<open>The members of \<^verbatim>\<open>r->ri_whfast\<close> and \<^verbatim>\<open>r->ri_ias15\<close> that \<^verbatim>\<open>rebound_init\<close> sets.\<close>

record ri_whfast_t =
  corrector :: int
  safe_mode :: int
  recalculate_jacobi_this_timestep :: int
  is_synchronized :: int
  allocated_N :: int
  timestep_warning :: int
  recalculate_jacobi_but_not_synchronized_warning :: int

record ri_ias15_t =
  epsilon :: real
  min_dt :: real
  epsilon_global :: int
  iterations_max_exceeded :: int

text \<open>
  The program state: the members of \<^verbatim>\<open>struct Rebound\<close> that \<^verbatim>\<open>rebound.c\<close> names, in
  the order in which \<^verbatim>\<open>rebound_init\<close> sets them, and \<open>env\<close>, which is not a member of
  the structure: it stands for the rest of the memory of the process (the globals and
  internal buffers of the other modules), which the external functions read and write.
  \<open>particles\<close> is the allocated array \<^verbatim>\<open>r->particles\<close>; \<^verbatim>\<open>NULL\<close> is the empty list. The
  number of particles in use is the separate member \<open>r_N\<close>.
\<close>

record 'g Rebound =
  r_t :: real
  r_G :: real
  softening :: real
  r_dt :: real
  boxsize :: real
  boxsize_x :: real
  boxsize_y :: real
  boxsize_z :: real
  boxsize_max :: real
  root_nx :: int
  root_ny :: int
  root_nz :: int
  root_n :: int
  r_N :: int
  r_Nmax :: int
  N_active :: int
  N_megno :: int
  exit_simulation :: int
  exact_finish_time :: int
  particles :: "Particle list"
  integrator :: integrator_kind
  force_is_velocitydependent :: int
  additional_forces :: nat
  finished :: nat
  post_timestep :: nat
  post_timestep_modifications :: nat
  ri_whfast :: ri_whfast_t
  ri_ias15 :: ri_ias15_t
  env :: 'g

text \<open>The preprocessor switches that \<^verbatim>\<open>rebound.c\<close> tests.\<close>

record build =
  TREE :: bool
  MPI :: bool
  GRAVITY_TREE :: bool
  COLLISIONS_NONE :: bool
  OPENGL :: bool
  OPENMP :: bool

subsection \<open>External calls and the call log\<close>

text \<open>
  The external functions that \<^verbatim>\<open>rebound_step\<close> and \<^verbatim>\<open>rebound_integrate\<close> call, under
  their names in the source. \<open>hook a\<close> is a call of the function at address \<open>a\<close>
  through one of the callback members. The last three are calls of the C library whose
  only effect is on the terminal or on a local variable: the two
  \<^verbatim>\<open>gettimeofday\<close> calls, the message on \<^verbatim>\<open>stderr\<close> of line 236 and the message on
  \<^verbatim>\<open>stdout\<close> of line 295.
\<close>

datatype op =
    integrator_part1
  | integrator_part2
  | integrator_synchronize
  | boundaries_check
  | tree_update
  | communication_mpi_distribute_particles
  | tree_update_gravity_data
  | tree_prepare_essential_tree_for_gravity
  | communication_mpi_distribute_essential_tree_for_gravity
  | gravity_calculate_acceleration
  | gravity_calculate_variational_acceleration
  | collisions_search
  | collisions_resolve
  | display
  | hook nat
  | gettimeofday
  | fprintf_no_particles
  | printf_finished

text \<open>
  A machine state is the program state together with a log, which the model keeps and
  the program does not see: one entry per external call, in the order of the calls, each
  with the program state the callee was called on.
\<close>

type_synonym 'g ext = "op \<Rightarrow> 'g Rebound \<Rightarrow> 'g Rebound"
type_synonym 'g log = "(op \<times> 'g Rebound) list"
type_synonym 'g mach = "'g Rebound \<times> 'g log"

definition call :: "'g ext \<Rightarrow> op \<Rightarrow> 'g mach \<Rightarrow> 'g mach" where
  "call X f m = (X f (fst m), snd m @ [(f, fst m)])"

text \<open>A call of the C library: logged, and the program state is left as it is.\<close>

definition libc :: "op \<Rightarrow> 'g mach \<Rightarrow> 'g mach" where
  "libc f m = (fst m, snd m @ [(f, fst m)])"

text \<open>An assignment to members of the structure: the log is left as it is.\<close>

definition assign :: "('g Rebound \<Rightarrow> 'g Rebound) \<Rightarrow> 'g mach \<Rightarrow> 'g mach" where
  "assign u m = (u (fst m), snd m)"

subsection \<open>\<^verbatim>\<open>rebound_step\<close> (lines 61 to 132)\<close>

text \<open>
  One definition per group of statements of the function, in the order of the source.
  \<open>step_tree\<close> is lines 76 to 96, \<open>step_forces\<close> lines 99 to 104,
  \<open>step_modifications\<close> lines 110 to 114 and \<open>step_collisions\<close> lines 118 to 131.
  In line 112 the callback member is read again after \<^verbatim>\<open>integrator_synchronize\<close> has
  returned.
\<close>

definition step_tree :: "build \<Rightarrow> 'g ext \<Rightarrow> 'g mach \<Rightarrow> 'g mach" where
  "step_tree B X m =
    (let m1 = (if TREE B then call X tree_update m else m);
         m2 = (if MPI B then call X communication_mpi_distribute_particles m1 else m1)
     in if GRAVITY_TREE B then
          (let m3 = call X tree_update_gravity_data m2
           in if MPI B then
                call X communication_mpi_distribute_essential_tree_for_gravity
                  (call X tree_prepare_essential_tree_for_gravity m3)
              else m3)
        else m2)"

definition step_forces :: "'g ext \<Rightarrow> 'g mach \<Rightarrow> 'g mach" where
  "step_forces X m =
    (let m1 = call X gravity_calculate_acceleration m;
         m2 = (if N_megno (fst m1) \<noteq> 0
               then call X gravity_calculate_variational_acceleration m1 else m1)
     in if additional_forces (fst m2) \<noteq> 0
        then call X (hook (additional_forces (fst m2))) m2 else m2)"

definition step_modifications :: "'g ext \<Rightarrow> 'g mach \<Rightarrow> 'g mach" where
  "step_modifications X m =
    (if post_timestep_modifications (fst m) \<noteq> 0 then
       (let m1 = call X integrator_synchronize m;
            m2 = call X (hook (post_timestep_modifications (fst m1))) m1
        in assign (\<lambda>r. r\<lparr>ri_whfast := (ri_whfast r)\<lparr>recalculate_jacobi_this_timestep := 1\<rparr>\<rparr>) m2)
     else m)"

definition step_collisions :: "build \<Rightarrow> 'g ext \<Rightarrow> 'g mach \<Rightarrow> 'g mach" where
  "step_collisions B X m =
    (if COLLISIONS_NONE B then m
     else call X collisions_resolve (call X collisions_search (call X boundaries_check m)))"

definition rebound_step :: "build \<Rightarrow> 'g ext \<Rightarrow> 'g mach \<Rightarrow> 'g mach" where
  "rebound_step B X m =
    (let m1 = call X integrator_part1 m;
         m2 = call X boundaries_check m1;
         m3 = step_tree B X m2;
         m4 = step_forces X m3;
         m5 = call X integrator_part2 m4;
         m6 = step_modifications X m5
     in step_collisions B X m6)"

subsection \<open>\<^verbatim>\<open>rebound_init\<close> (lines 134 to 219)\<close>

text \<open>
  What \<^verbatim>\<open>rebound_init\<close> writes to the terminal: the lines of the logo (the array
  \<^verbatim>\<open>logo\<close> has 32 entries before its \<^verbatim>\<open>NULL\<close>), the build string, the error message of
  line 190, and the messages of lines 211, 213 and 216 with the three numbers of root
  boxes they print.
\<close>

datatype init_output =
    printf_logo nat
  | printf_built
  | fprintf_root_boxes
  | printf_initialized_mpi int int int
  | printf_initialized int int int
  | printf_openmp

text \<open>\<^verbatim>\<open>exit(-1)\<close> ends the process; otherwise the function returns the new structure.\<close>

datatype 'g init_result = process_exit int | returned "'g Rebound"

text \<open>
  Lines 141 to 187: \<^verbatim>\<open>calloc\<close> followed by the assignments. \<open>g\<close> is the memory of the
  process outside the new structure. A failing \<^verbatim>\<open>calloc\<close> is outside the model.
\<close>

definition init_defaults :: "'g \<Rightarrow> 'g Rebound" where
  "init_defaults g =
    \<lparr> r_t = 0,
      r_G = 1,
      softening = 0,
      r_dt = 0.001,
      boxsize = -1,
      boxsize_x = -1,
      boxsize_y = -1,
      boxsize_z = -1,
      boxsize_max = -1,
      root_nx = 1,
      root_ny = 1,
      root_nz = 1,
      root_n = 1,
      r_N = 0,
      r_Nmax = 0,
      N_active = -1,
      N_megno = 0,
      exit_simulation = 0,
      exact_finish_time = 0,
      particles = [],
      integrator = IAS15,
      force_is_velocitydependent = 0,
      additional_forces = 0,
      finished = 0,
      post_timestep = 0,
      post_timestep_modifications = 0,
      ri_whfast = \<lparr> corrector = 0, safe_mode = 1, recalculate_jacobi_this_timestep = 0,
        is_synchronized = 1, allocated_N = 0, timestep_warning = 0,
        recalculate_jacobi_but_not_synchronized_warning = 0 \<rparr>,
      ri_ias15 = \<lparr> epsilon = 1 / 10 ^ 9, min_dt = 0, epsilon_global = 1,
        iterations_max_exceeded = 0 \<rparr>,
      env = g \<rparr>"

text \<open>
  Lines 189 to 218, on the structure \<open>r\<close> as it stands when line 189 is reached, with
  \<open>out\<close> what has been printed so far.
\<close>

definition init_validate ::
  "build \<Rightarrow> init_output list \<Rightarrow> 'g Rebound \<Rightarrow> init_output list \<times> 'g init_result" where
  "init_validate B out r =
    (if root_nx r \<le> 0 \<or> root_ny r \<le> 0 \<or> root_nz r \<le> 0 then
       (out @ [fprintf_root_boxes], process_exit (- 1))
     else
       (out
          @ [if MPI B then printf_initialized_mpi (root_nx r) (root_ny r) (root_nz r)
             else printf_initialized (root_nx r) (root_ny r) (root_nz r)]
          @ (if OPENMP B then [printf_openmp] else []),
        returned r))"

text \<open>
  \<open>rebound_show_logo\<close> is the global of line 58; \<open>tools_init_srand\<close> is the effect of the
  external function of that name on the memory of the process.
\<close>

definition rebound_init ::
  "build \<Rightarrow> nat \<Rightarrow> ('g \<Rightarrow> 'g) \<Rightarrow> 'g \<Rightarrow> init_output list \<times> 'g init_result" where
  "rebound_init B rebound_show_logo tools_init_srand g =
    (let out = (if rebound_show_logo = 1 then map printf_logo [0..<32] @ [printf_built] else []);
         r = init_defaults (tools_init_srand g)
     in init_validate B out r)"

subsection \<open>\<^verbatim>\<open>rebound_integrate\<close> (lines 221 to 297)\<close>

text \<open>The local variables that the loop changes.\<close>

record locals =
  dt_last_done :: real
  last_step :: int
  ret_value :: int

text \<open>The rounding of the machine: the double that stands for an exact result.\<close>

type_synonym rounding = "real \<Rightarrow> real"

text \<open>
  \<^verbatim>\<open>copysign(1., d)\<close>: -1 when the sign bit of \<open>d\<close> is set, 1 otherwise. For \<open>d = 0\<close> the
  sign bit is \<open>negative_zero\<close>.
\<close>

definition copysign1 :: "bool \<Rightarrow> real \<Rightarrow> real" where
  "copysign1 negative_zero d = (if d < 0 \<or> (d = 0 \<and> negative_zero) then - 1 else 1)"

text \<open>The condition of lines 230 and 245, and the condition of the loop, line 234.\<close>

definition overshoot :: "rounding \<Rightarrow> real \<Rightarrow> real \<Rightarrow> 'g Rebound \<Rightarrow> bool" where
  "overshoot fl tmax dtsign r \<longleftrightarrow>
     fl (r_t r + r_dt r) * dtsign \<ge> tmax * dtsign \<and> exact_finish_time r = 1"

definition running :: "real \<Rightarrow> real \<Rightarrow> locals \<Rightarrow> 'g Rebound \<Rightarrow> bool" where
  "running tmax dtsign L r \<longleftrightarrow>
     r_t r * dtsign < tmax * dtsign \<and> last_step L < 2 \<and> ret_value L = 0 \<and> exit_simulation r = 0"

text \<open>Lines 229 and 252.\<close>

definition call_post_timestep :: "'g ext \<Rightarrow> 'g mach \<Rightarrow> 'g mach" where
  "call_post_timestep X m =
    (if post_timestep (fst m) \<noteq> 0 then call X (hook (post_timestep (fst m))) m else m)"

text \<open>Lines 245 to 251, on the locals and the machine state.\<close>

definition truncate_step ::
  "'g ext \<Rightarrow> rounding \<Rightarrow> real \<Rightarrow> real \<Rightarrow> locals \<Rightarrow> 'g mach \<Rightarrow> locals \<times> 'g mach" where
  "truncate_step X fl tmax dtsign L m =
    (if overshoot fl tmax dtsign (fst m) then
       (L\<lparr>last_step := last_step L + 1\<rparr>,
        assign (\<lambda>r. r\<lparr>r_dt := fl (tmax - r_t r)\<rparr>) (call X integrator_synchronize m))
     else (L\<lparr>dt_last_done := r_dt (fst m)\<rparr>, m))"

text \<open>Lines 239 to 252: the step, the display, the truncation and the callback.\<close>

definition advance ::
  "build \<Rightarrow> 'g ext \<Rightarrow> rounding \<Rightarrow> real \<Rightarrow> real \<Rightarrow> locals \<Rightarrow> 'g mach
     \<Rightarrow> locals \<times> 'g mach" where
  "advance B X fl tmax dtsign L m =
    (let m1 = rebound_step B X m;
         m2 = (if OPENGL B then call X display m1 else m1);
         Lm = truncate_step X fl tmax dtsign L m2
     in (fst Lm, call_post_timestep X (snd Lm)))"

text \<open>
  Lines 258 to 266, the loop over \<open>i\<close>. A read of \<^verbatim>\<open>particles[i]\<close> outside the allocated
  array has no defined behaviour in C: the model answers \<open>None\<close>.
\<close>

function escape_loop ::
  "rounding \<Rightarrow> Particle list \<Rightarrow> real \<Rightarrow> int \<Rightarrow> nat \<Rightarrow> int \<Rightarrow> int option" where
  "escape_loop fl ps maxR2 n i ret =
    (if int i < n then
       (if i < length ps then
          (let p = ps ! i;
               r2 = fl (fl (fl (p_x p * p_x p) + fl (p_y p * p_y p)) + fl (p_z p * p_z p))
           in escape_loop fl ps maxR2 n (Suc i) (if r2 > maxR2 then 2 else ret))
        else None)
     else Some ret)"
  by pat_completeness auto
termination
  by (relation "measure (\<lambda>(fl, ps, maxR2, n, i, ret). nat (n - int i))") auto

text \<open>Lines 253 to 267.\<close>

definition check_escape :: "rounding \<Rightarrow> real \<Rightarrow> 'g Rebound \<Rightarrow> int \<Rightarrow> int option" where
  "check_escape fl maxR r ret =
    (if maxR \<noteq> 0
     then escape_loop fl (particles r) (fl (maxR * maxR)) (r_N r - N_megno r) 0 ret
     else Some ret)"

text \<open>Lines 275 to 287, the loop over \<open>j\<close> (the local \<^verbatim>\<open>pi\<close> is written \<open>pi'\<close>), and
  lines 273 to 288, the loop over \<open>i\<close>.\<close>

function encounter_inner ::
  "rounding \<Rightarrow> Particle list \<Rightarrow> real \<Rightarrow> Particle \<Rightarrow> nat \<Rightarrow> nat \<Rightarrow> int \<Rightarrow> int option" where
  "encounter_inner fl ps minD2 pi' i j ret =
    (if j < i then
       (if j < length ps then
          (let pj = ps ! j;
               x = fl (p_x pi' - p_x pj);
               y = fl (p_y pi' - p_y pj);
               z = fl (p_z pi' - p_z pj);
               r2 = fl (fl (fl (x * x) + fl (y * y)) + fl (z * z))
           in encounter_inner fl ps minD2 pi' i (Suc j) (if r2 < minD2 then 3 else ret))
        else None)
     else Some ret)"
  by pat_completeness auto
termination
  by (relation "measure (\<lambda>(fl, ps, minD2, pi', i, j, ret). i - j)") auto

function encounter_loop ::
  "rounding \<Rightarrow> Particle list \<Rightarrow> real \<Rightarrow> int \<Rightarrow> nat \<Rightarrow> int \<Rightarrow> int option" where
  "encounter_loop fl ps minD2 n i ret =
    (if int i < n then
       (if i < length ps then
          (case encounter_inner fl ps minD2 (ps ! i) i 0 ret of
             None \<Rightarrow> None
           | Some ret' \<Rightarrow> encounter_loop fl ps minD2 n (Suc i) ret')
        else None)
     else Some ret)"
  by pat_completeness auto
termination
  by (relation "measure (\<lambda>(fl, ps, minD2, n, i, ret). nat (n - int i))") auto

text \<open>Lines 268 to 289.\<close>

definition check_encounter :: "rounding \<Rightarrow> real \<Rightarrow> 'g Rebound \<Rightarrow> int \<Rightarrow> int option" where
  "check_encounter fl minD r ret =
    (if minD \<noteq> 0
     then encounter_loop fl (particles r) (fl (minD * minD)) (r_N r - N_megno r) 0 ret
     else Some ret)"

text \<open>Lines 291 to 295, after the loop.\<close>

definition finish :: "'g ext \<Rightarrow> locals \<Rightarrow> 'g mach \<Rightarrow> 'g mach" where
  "finish X L m =
    libc printf_finished
      (libc gettimeofday
        (assign (\<lambda>r. r\<lparr>r_dt := dt_last_done L\<rparr>) (call X integrator_synchronize m)))"

text \<open>
  How a call of \<^verbatim>\<open>rebound_integrate\<close> ends: it returns a result code, with the machine
  state at that moment, or it has read outside the particle array.
\<close>

datatype 'g outcome = Returned int "'g mach" | Out_of_bounds

text \<open>
  The loop of lines 234 to 290. It need not end (a step need not move the time), so it
  is a partial function: \<open>None\<close> is a loop that runs for ever.
\<close>

partial_function (option) integrate_loop ::
  "build \<Rightarrow> 'g ext \<Rightarrow> rounding \<Rightarrow> real \<Rightarrow> real \<Rightarrow> real \<Rightarrow> real \<Rightarrow> locals \<Rightarrow> 'g mach
     \<Rightarrow> 'g outcome option" where
  "integrate_loop B X fl tmax maxR minD dtsign L m =
    (if running tmax dtsign L (fst m) then
       (if r_N (fst m) \<le> 0 then Some (Returned 1 (libc fprintf_no_particles m))
        else
          (let Lm = advance B X fl tmax dtsign L m
           in case check_escape fl maxR (fst (snd Lm)) (ret_value (fst Lm)) of
                None \<Rightarrow> Some Out_of_bounds
              | Some e \<Rightarrow>
                  (case check_encounter fl minD (fst (snd Lm)) e of
                     None \<Rightarrow> Some Out_of_bounds
                   | Some c \<Rightarrow>
                       integrate_loop B X fl tmax maxR minD dtsign
                         ((fst Lm)\<lparr>ret_value := c\<rparr>) (snd Lm))))
     else Some (Returned (ret_value L) (finish X L m)))"

text \<open>
  Lines 222 to 233, then the loop. \<open>negative_zero\<close> is the sign bit of \<^verbatim>\<open>r->dt\<close> at entry
  when \<^verbatim>\<open>r->dt\<close> is a zero.
\<close>

definition rebound_integrate ::
  "build \<Rightarrow> 'g ext \<Rightarrow> rounding \<Rightarrow> bool \<Rightarrow> real \<Rightarrow> real \<Rightarrow> real \<Rightarrow> 'g mach
     \<Rightarrow> 'g outcome option" where
  "rebound_integrate B X fl negative_zero tmax maxR minD m =
    (let m1 = libc gettimeofday m;
         L = \<lparr> dt_last_done = r_dt (fst m1), last_step = 0, ret_value = 0 \<rparr>;
         dtsign = copysign1 negative_zero (r_dt (fst m1));
         m2 = call_post_timestep X m1;
         Lm = (if overshoot fl tmax dtsign (fst m2) then
                 (L\<lparr>last_step := last_step L + 1\<rparr>,
                  assign (\<lambda>r. r\<lparr>r_dt := fl (tmax - r_t r)\<rparr>) m2)
               else (L, m2))
     in integrate_loop B X fl tmax maxR minD dtsign (fst Lm) (snd Lm))"

declare integrate_loop.simps [code]

text \<open>The equations of the loops are unfolded by hand, one iteration at a time.\<close>

declare escape_loop.simps [simp del]
declare encounter_inner.simps [simp del]
declare encounter_loop.simps [simp del]

subsection \<open>Observations\<close>

text \<open>What a caller sees of a call of \<^verbatim>\<open>rebound_integrate\<close> that returns.\<close>

definition result_code :: "'g outcome option \<Rightarrow> int option" where
  "result_code out = (case out of Some (Returned c m) \<Rightarrow> Some c | _ \<Rightarrow> None)"

definition final_state :: "'g outcome option \<Rightarrow> 'g Rebound option" where
  "final_state out = (case out of Some (Returned c m) \<Rightarrow> Some (fst m) | _ \<Rightarrow> None)"

definition final_calls :: "'g outcome option \<Rightarrow> op list option" where
  "final_calls out = (case out of Some (Returned c m) \<Rightarrow> Some (map fst (snd m)) | _ \<Rightarrow> None)"

text \<open>The states on which the external function \<open>f\<close> was called, in the order of the log.\<close>

definition observed_by :: "op \<Rightarrow> 'g log \<Rightarrow> 'g Rebound list" where
  "observed_by f l = map snd (filter (\<lambda>e. fst e = f) l)"

text \<open>The calls of lines 76 to 96, as the preprocessor switches select them.\<close>

definition tree_calls :: "build \<Rightarrow> op list" where
  "tree_calls B =
    (if TREE B then [tree_update] else [])
    @ (if MPI B then [communication_mpi_distribute_particles] else [])
    @ (if GRAVITY_TREE B then
         tree_update_gravity_data
           # (if MPI B then [tree_prepare_essential_tree_for_gravity,
                            communication_mpi_distribute_essential_tree_for_gravity]
              else [])
       else [])"

text \<open>
  The conditions that the two monitoring loops look for, in the words of the
  specification: a particle among the first \<^verbatim>\<open>N - N_megno\<close> whose squared distance from
  the origin is greater than \<open>maxR\<^sup>2\<close>, and a pair of them whose squared distance is less
  than \<open>minD\<^sup>2\<close>, the squares and sums being those of the machine; the checks are
  switched off by a threshold of 0. \<open>in_bounds\<close> says that the first \<^verbatim>\<open>N - N_megno\<close>
  particles lie inside the allocated array.
\<close>

definition beyond :: "rounding \<Rightarrow> real \<Rightarrow> Particle \<Rightarrow> bool" where
  "beyond fl maxR p \<longleftrightarrow>
     fl (fl (fl (p_x p * p_x p) + fl (p_y p * p_y p)) + fl (p_z p * p_z p)) > fl (maxR * maxR)"

definition closer :: "rounding \<Rightarrow> real \<Rightarrow> Particle \<Rightarrow> Particle \<Rightarrow> bool" where
  "closer fl minD a b \<longleftrightarrow>
     fl (fl (fl (fl (p_x a - p_x b) * fl (p_x a - p_x b))
             + fl (fl (p_y a - p_y b) * fl (p_y a - p_y b)))
         + fl (fl (p_z a - p_z b) * fl (p_z a - p_z b))) < fl (minD * minD)"

definition in_bounds :: "'g Rebound \<Rightarrow> bool" where
  "in_bounds r \<longleftrightarrow> r_N r - N_megno r \<le> int (length (particles r))"

definition escape_found :: "rounding \<Rightarrow> real \<Rightarrow> 'g Rebound \<Rightarrow> bool" where
  "escape_found fl maxR r \<longleftrightarrow>
     maxR \<noteq> 0 \<and> (\<exists>i \<in> {0..<nat (r_N r - N_megno r)}. beyond fl maxR (particles r ! i))"

definition encounter_found :: "rounding \<Rightarrow> real \<Rightarrow> 'g Rebound \<Rightarrow> bool" where
  "encounter_found fl minD r \<longleftrightarrow>
     minD \<noteq> 0 \<and> (\<exists>i \<in> {0..<nat (r_N r - N_megno r)}. \<exists>j \<in> {0..<i}.
                      closer fl minD (particles r ! i) (particles r ! j))"

subsection \<open>The arithmetic of doubles\<close>

text \<open>
  The rounding of IEEE 754 binary64 arithmetic in its default mode: the nearest number
  with a significand of 53 bits, the one with an even significand when two are equally
  near. \<open>exponent x\<close> is the \<open>e\<close> with \<open>2\<^sup>e \<le> x < 2\<^sup>e\<^sup>+\<^sup>1\<close> for a positive \<open>x\<close>; the
  doubles between \<open>2\<^sup>e\<close> and \<open>2\<^sup>e\<^sup>+\<^sup>1\<close> are the multiples of \<open>2\<^sup>e\<^sup>-\<^sup>5\<^sup>2\<close>. The range of the
  exponent is not bounded here.
\<close>

definition round_half_even :: "real \<Rightarrow> int" where
  "round_half_even x =
    (let n = \<lfloor>x\<rfloor>; f = x - of_int n
     in if f < 1 / 2 then n else if 1 / 2 < f then n + 1 else if even n then n else n + 1)"

definition exponent :: "real \<Rightarrow> int" where
  "exponent x = (if 1 \<le> x then bitlen \<lfloor>x\<rfloor> - 1 else - bitlen (\<lceil>1 / x\<rceil> - 1))"

definition round_double :: rounding where
  "round_double x =
    (if x = 0 then 0
     else let u = 2 powi (exponent \<bar>x\<bar> - 52)
          in u * of_int (round_half_even (x / u)))"

subsection \<open>A concrete environment\<close>

text \<open>
  Modelled from the spec: the integrator, the callbacks and the other external functions
  are not part of the sources at hand. The specification says of the first half of a
  step that "\<^verbatim>\<open>is_synchronized\<close> may become false", of the second half that it completes
  the step with the time advanced, and that an integrator may defer the synchronization,
  the symplectic one running in a "safe" synchronization mode by default. \<open>X0\<close> is such
  an integrator: the first half leaves the integrator unsynchronized, the second half
  adds the timestep to the time, in the arithmetic of doubles, and synchronizes again
  only in safe mode, and \<^verbatim>\<open>integrator_synchronize\<close> sets the flag. Every other external
  function of \<open>X0\<close> leaves the state as it is. \<open>X1\<close> is \<open>X0\<close> with callbacks that move
  a time of 2 or more back to 3/4, and \<open>X2\<close> is \<open>X0\<close> with callbacks that put two
  particles, at rest at given positions, into the simulation. The examples run in the
  build \<open>B0\<close> without any switch.
\<close>

definition B0 :: build where
  "B0 = \<lparr> TREE = False, MPI = False, GRAVITY_TREE = False, COLLISIONS_NONE = False,
           OPENGL = False, OPENMP = False \<rparr>"

fun X0 :: "unit ext" where
  "X0 integrator_part1 r = r\<lparr>ri_whfast := (ri_whfast r)\<lparr>is_synchronized := 0\<rparr>\<rparr>"
| "X0 integrator_part2 r =
     r\<lparr>r_t := round_double (r_t r + r_dt r),
       ri_whfast := (ri_whfast r)\<lparr>is_synchronized :=
         (if safe_mode (ri_whfast r) \<noteq> 0 then 1 else is_synchronized (ri_whfast r))\<rparr>\<rparr>"
| "X0 integrator_synchronize r = r\<lparr>ri_whfast := (ri_whfast r)\<lparr>is_synchronized := 1\<rparr>\<rparr>"
| "X0 f r = r"

fun X1 :: "unit ext" where
  "X1 (hook a) r = r\<lparr>r_t := (if 2 \<le> r_t r then 3 / 4 else r_t r)\<rparr>"
| "X1 f r = X0 f r"

definition particle_at :: "real \<Rightarrow> real \<Rightarrow> real \<Rightarrow> Particle" where
  "particle_at a b c =
    \<lparr> p_x = a, p_y = b, p_z = c, p_vx = 0, p_vy = 0, p_vz = 0, p_m = 1, p_r = 0 \<rparr>"

fun X2 :: "unit ext" where
  "X2 (hook a) r = r\<lparr>r_N := 2, particles := [particle_at 0 0 0, particle_at 10 0 0]\<rparr>"
| "X2 f r = X0 f r"

text \<open>
  The states of the examples: two particles at distance 10 from each other, two
  particles at distance 1 from each other and 10 from the origin, and no particle, each
  with a timestep of 1/4; the first with the symplectic integrator out of safe mode; at
  time 2 with \<^verbatim>\<open>exact_finish_time\<close> set and a \<^verbatim>\<open>post_timestep\<close> callback; at time 5/8 with
  \<^verbatim>\<open>exact_finish_time\<close> set; at time 7/8 with \<^verbatim>\<open>exact_finish_time\<close> set and a timestep
  of 1/8; at the double 0.32 with the double 0.53 for timestep and \<^verbatim>\<open>exact_finish_time\<close>
  set; with \<^verbatim>\<open>root_nx\<close> set to 0.
\<close>

definition two_far :: "unit Rebound" where
  "two_far = (init_defaults ())
     \<lparr> r_dt := 1 / 4, r_N := 2, particles := [particle_at 0 0 0, particle_at 10 0 0] \<rparr>"

definition two_near_outside :: "unit Rebound" where
  "two_near_outside = (init_defaults ())
     \<lparr> r_dt := 1 / 4, r_N := 2, particles := [particle_at 10 0 0, particle_at 10 1 0] \<rparr>"

definition empty_state :: "unit Rebound" where
  "empty_state = (init_defaults ())\<lparr> r_dt := 1 / 4 \<rparr>"

definition unsafe :: "unit Rebound" where
  "unsafe = two_far\<lparr>ri_whfast := (ri_whfast two_far)\<lparr>safe_mode := 0\<rparr>\<rparr>"

definition past_target :: "unit Rebound" where
  "past_target = two_far\<lparr>r_t := 2, exact_finish_time := 1, post_timestep := 5\<rparr>"

definition near_end :: "unit Rebound" where
  "near_end = two_far\<lparr>r_t := 5 / 8, exact_finish_time := 1\<rparr>"

definition final_eighth :: "unit Rebound" where
  "final_eighth = two_far\<lparr>r_t := 7 / 8, r_dt := 1 / 8, exact_finish_time := 1\<rparr>"

definition inexact :: "unit Rebound" where
  "inexact = two_far\<lparr>r_t := round_double (32 / 100), r_dt := round_double (53 / 100),
     exact_finish_time := 1\<rparr>"


section \<open>Properties\<close>

subsection \<open>Machine states\<close>

lemma fst_call [simp]: "fst (call X f m) = X f (fst m)"
  by (simp add: call_def)

lemma snd_call [simp]: "snd (call X f m) = snd m @ [(f, fst m)]"
  by (simp add: call_def)

lemma fst_libc [simp]: "fst (libc f m) = fst m"
  by (simp add: libc_def)

lemma snd_libc [simp]: "snd (libc f m) = snd m @ [(f, fst m)]"
  by (simp add: libc_def)

lemma fst_assign [simp]: "fst (assign u m) = u (fst m)"
  by (simp add: assign_def)

lemma snd_assign [simp]: "snd (assign u m) = snd m"
  by (simp add: assign_def)

lemma observed_by_append [simp]:
  "observed_by f (l @ l') = observed_by f l @ observed_by f l'"
  by (simp add: observed_by_def)

lemma observed_by_absent: "f \<notin> set (map fst l) \<Longrightarrow> observed_by f l = []"
  by (auto simp add: observed_by_def filter_empty_conv)

lemma observed_by_Cons [simp]:
  "observed_by f (e # l) = (if fst e = f then snd e # observed_by f l else observed_by f l)"
  by (simp add: observed_by_def)

lemma observed_by_Nil [simp]: "observed_by f [] = []"
  by (simp add: observed_by_def)

subsection \<open>The step\<close>

lemma fst_step_tree:
  "fst (step_tree B X m) =
    (let b1 = (if TREE B then X tree_update (fst m) else fst m);
         b2 = (if MPI B then X communication_mpi_distribute_particles b1 else b1);
         b3 = X tree_update_gravity_data b2
     in if GRAVITY_TREE B then
          (if MPI B then
             X communication_mpi_distribute_essential_tree_for_gravity
               (X tree_prepare_essential_tree_for_gravity b3)
           else b3)
        else b2)"
  by (simp add: step_tree_def Let_def)

lemma ops_step_tree: "map fst (snd (step_tree B X m)) = map fst (snd m) @ tree_calls B"
  by (simp add: step_tree_def tree_calls_def Let_def)

lemma fst_step_forces:
  "fst (step_forces X m) =
    (let g = X gravity_calculate_acceleration (fst m);
         v = (if N_megno g \<noteq> 0 then X gravity_calculate_variational_acceleration g else g)
     in if additional_forces v \<noteq> 0 then X (hook (additional_forces v)) v else v)"
  by (simp add: step_forces_def Let_def)

lemma ops_step_forces:
  "map fst (snd (step_forces X m)) =
    (let g = X gravity_calculate_acceleration (fst m);
         v = (if N_megno g \<noteq> 0 then X gravity_calculate_variational_acceleration g else g)
     in map fst (snd m) @ [gravity_calculate_acceleration]
        @ (if N_megno g \<noteq> 0 then [gravity_calculate_variational_acceleration] else [])
        @ (if additional_forces v \<noteq> 0 then [hook (additional_forces v)] else []))"
  by (simp add: step_forces_def Let_def)

lemma fst_step_modifications:
  "fst (step_modifications X m) =
    (if post_timestep_modifications (fst m) \<noteq> 0 then
       (let s = X integrator_synchronize (fst m);
            h = X (hook (post_timestep_modifications s)) s
        in h\<lparr>ri_whfast := (ri_whfast h)\<lparr>recalculate_jacobi_this_timestep := 1\<rparr>\<rparr>)
     else fst m)"
  by (simp add: step_modifications_def Let_def)

lemma snd_step_modifications:
  "snd (step_modifications X m) =
    snd m
    @ (if post_timestep_modifications (fst m) \<noteq> 0 then
         [(integrator_synchronize, fst m),
          (hook (post_timestep_modifications (X integrator_synchronize (fst m))),
           X integrator_synchronize (fst m))]
       else [])"
  by (simp add: step_modifications_def Let_def)

lemma ops_step_modifications:
  "map fst (snd (step_modifications X m)) =
    map fst (snd m)
    @ (if post_timestep_modifications (fst m) \<noteq> 0
       then [integrator_synchronize,
             hook (post_timestep_modifications (X integrator_synchronize (fst m)))]
       else [])"
  by (simp add: snd_step_modifications)

lemma fst_step_collisions:
  "fst (step_collisions B X m) =
    (if COLLISIONS_NONE B then fst m
     else X collisions_resolve (X collisions_search (X boundaries_check (fst m))))"
  by (simp add: step_collisions_def)

lemma snd_step_collisions:
  "snd (step_collisions B X m) =
    snd m
    @ (if COLLISIONS_NONE B then []
       else [(boundaries_check, fst m),
             (collisions_search, X boundaries_check (fst m)),
             (collisions_resolve, X collisions_search (X boundaries_check (fst m)))])"
  by (simp add: step_collisions_def)

lemma ops_step_collisions:
  "map fst (snd (step_collisions B X m)) =
    map fst (snd m)
    @ (if COLLISIONS_NONE B then []
       else [boundaries_check, collisions_search, collisions_resolve])"
  by (simp add: snd_step_collisions)

text \<open>
  C7, as the claim states it, fails. In a build that defines \<^verbatim>\<open>COLLISIONS_NONE\<close> the step
  ends with the second half of the integrator (no \<^verbatim>\<open>post_timestep_modifications\<close>
  callback is registered here): there is no second boundary check, no collision search
  and no collision resolution.
\<close>

theorem collision_phase_counterexample:
  "COLLISIONS_NONE (B0\<lparr>COLLISIONS_NONE := True\<rparr>)
   \<and> map fst (snd (rebound_step (B0\<lparr>COLLISIONS_NONE := True\<rparr>) X0 (two_far, []))) =
       [integrator_part1, boundaries_check, gravity_calculate_acceleration, integrator_part2]"
  by code_simp

text \<open>
  C7, amended. The calls of one \<^verbatim>\<open>rebound_step\<close>, in the order in which they are made, for
  every build, every environment and every state: the first half of the integrator, the
  boundary check, the tree and communication calls that the build selects, the gravity
  calculation, the variational accelerations when \<^verbatim>\<open>N_megno\<close> is not zero after the
  gravity calculation, the \<^verbatim>\<open>additional_forces\<close> callback when it is registered, the
  second half of the integrator, then, only when a \<^verbatim>\<open>post_timestep_modifications\<close>
  callback is registered, \<^verbatim>\<open>integrator_synchronize\<close> followed by the callback, and last,
  only when the build does not define \<^verbatim>\<open>COLLISIONS_NONE\<close>, the second boundary check, the
  collision search and the collision resolution. Each call works on the state that the
  call before it returned: \<open>a\<close> is the state after the boundary check, \<open>b1\<close>, \<open>b2\<close>, \<open>b3\<close>
  and \<open>b\<close> are the states along the tree and communication calls, \<open>g\<close>, \<open>v\<close> and \<open>f\<close>
  those along the force calls, \<open>p\<close> the state after the second half of the integrator,
  \<open>s\<close> after the synchronization and \<open>h\<close> after the callback. When the callback ran, the
  flag \<^verbatim>\<open>recalculate_jacobi_this_timestep\<close> is set on the state the callback returned,
  before the second boundary check is called on it. The second part gives the state that
  the step returns.
\<close>

theorem rebound_step_order:
  "(let a = X boundaries_check (X integrator_part1 w);
        b1 = (if TREE B then X tree_update a else a);
        b2 = (if MPI B then X communication_mpi_distribute_particles b1 else b1);
        b3 = X tree_update_gravity_data b2;
        b = (if GRAVITY_TREE B then
               (if MPI B then
                  X communication_mpi_distribute_essential_tree_for_gravity
                    (X tree_prepare_essential_tree_for_gravity b3)
                else b3)
             else b2);
        g = X gravity_calculate_acceleration b;
        v = (if N_megno g \<noteq> 0 then X gravity_calculate_variational_acceleration g else g);
        f = (if additional_forces v \<noteq> 0 then X (hook (additional_forces v)) v else v);
        p = X integrator_part2 f;
        s = X integrator_synchronize p;
        h = X (hook (post_timestep_modifications s)) s;
        q = (if post_timestep_modifications p \<noteq> 0
             then h\<lparr>ri_whfast := (ri_whfast h)\<lparr>recalculate_jacobi_this_timestep := 1\<rparr>\<rparr>
             else p)
    in map fst (snd (rebound_step B X (w, []))) =
         [integrator_part1, boundaries_check] @ tree_calls B
         @ [gravity_calculate_acceleration]
         @ (if N_megno g \<noteq> 0 then [gravity_calculate_variational_acceleration] else [])
         @ (if additional_forces v \<noteq> 0 then [hook (additional_forces v)] else [])
         @ [integrator_part2]
         @ (if post_timestep_modifications p \<noteq> 0
            then [integrator_synchronize, hook (post_timestep_modifications s)] else [])
         @ (if COLLISIONS_NONE B then []
            else [boundaries_check, collisions_search, collisions_resolve])
       \<and> fst (rebound_step B X (w, [])) =
           (if COLLISIONS_NONE B then q
            else X collisions_resolve (X collisions_search (X boundaries_check q))))"
  unfolding Let_def
  by (simp add: rebound_step_def Let_def fst_step_collisions ops_step_collisions
      fst_step_modifications ops_step_modifications fst_step_forces ops_step_forces
      fst_step_tree ops_step_tree split del: if_split cong: if_cong)

theorem rebound_step_order_witness:
  "map fst (snd (rebound_step (B0\<lparr>TREE := True, GRAVITY_TREE := True\<rparr>) X0
      (two_far\<lparr>post_timestep_modifications := 7\<rparr>, []))) =
     [integrator_part1, boundaries_check, tree_update, tree_update_gravity_data,
      gravity_calculate_acceleration, integrator_part2,
      integrator_synchronize, hook 7, boundaries_check, collisions_search,
      collisions_resolve]
   \<and> r_t (fst (rebound_step (B0\<lparr>TREE := True, GRAVITY_TREE := True\<rparr>) X0
      (two_far\<lparr>post_timestep_modifications := 7\<rparr>, []))) = 1 / 4
   \<and> recalculate_jacobi_this_timestep (ri_whfast (fst (rebound_step
      (B0\<lparr>TREE := True, GRAVITY_TREE := True\<rparr>) X0
      (two_far\<lparr>post_timestep_modifications := 7\<rparr>, [])))) = 1"
proof -
  have "round_double (0 + 1 / 4) = 1 / 4"
    by code_simp
  then show ?thesis
    using rebound_step_order [where X = X0 and B = "B0\<lparr>TREE := True, GRAVITY_TREE := True\<rparr>"
        and w = "two_far\<lparr>post_timestep_modifications := 7\<rparr>"]
    by (simp add: Let_def B0_def two_far_def init_defaults_def tree_calls_def)
qed

subsection \<open>Synchronization within a step\<close>

lemma ops_before_modifications:
  "integrator_synchronize \<notin> set (map fst (snd (call X integrator_part2
      (step_forces X (step_tree B X (call X boundaries_check (call X integrator_part1 (w, []))))))))
   \<and> collisions_search \<notin> set (map fst (snd (call X integrator_part2
      (step_forces X (step_tree B X (call X boundaries_check (call X integrator_part1 (w, []))))))))"
  by (simp add: ops_step_forces ops_step_tree tree_calls_def Let_def)

text \<open>
  C4. The code does not do what the claim says. \<^verbatim>\<open>rebound_step\<close> calls
  \<^verbatim>\<open>integrator_synchronize\<close> in one place only, inside the test of line 110, for the
  \<^verbatim>\<open>post_timestep_modifications\<close> callback. For every build, every environment and every
  state, with \<open>p\<close> the state that the second half of the integrator returned: no call
  up to there is a synchronization or a collision search; the calls that follow are the
  synchronization on \<open>p\<close> and the callback, when one is registered, and then the boundary
  check, the collision search and the collision resolution, when they are compiled. So
  \<^verbatim>\<open>integrator_synchronize\<close> is called on \<open>p\<close> when a callback is registered and not at
  all otherwise, and without a callback \<^verbatim>\<open>collisions_search\<close> is called on \<open>p\<close> as the
  boundary check left it, whatever its synchronization flag.
\<close>

theorem synchronization_only_for_hook:
  "(let m5 = call X integrator_part2 (step_forces X (step_tree B X
               (call X boundaries_check (call X integrator_part1 (w, [])))));
        p = fst m5;
        s = X integrator_synchronize p;
        h = X (hook (post_timestep_modifications s)) s;
        q = (if post_timestep_modifications p \<noteq> 0
             then h\<lparr>ri_whfast := (ri_whfast h)\<lparr>recalculate_jacobi_this_timestep := 1\<rparr>\<rparr>
             else p)
    in integrator_synchronize \<notin> set (map fst (snd m5))
       \<and> collisions_search \<notin> set (map fst (snd m5))
       \<and> snd (rebound_step B X (w, [])) =
           snd m5
           @ (if post_timestep_modifications p \<noteq> 0
              then [(integrator_synchronize, p), (hook (post_timestep_modifications s), s)]
              else [])
           @ (if COLLISIONS_NONE B then []
              else [(boundaries_check, q), (collisions_search, X boundaries_check q),
                    (collisions_resolve, X collisions_search (X boundaries_check q))])
       \<and> observed_by integrator_synchronize (snd (rebound_step B X (w, []))) =
           (if post_timestep_modifications p \<noteq> 0 then [p] else [])
       \<and> observed_by collisions_search (snd (rebound_step B X (w, []))) =
           (if COLLISIONS_NONE B then [] else [X boundaries_check q]))"
proof -
  let ?m5 = "call X integrator_part2 (step_forces X (step_tree B X
               (call X boundaries_check (call X integrator_part1 (w, [])))))"
  have step: "rebound_step B X (w, []) = step_collisions B X (step_modifications X ?m5)"
    by (simp add: rebound_step_def Let_def)
  have nosync: "integrator_synchronize \<notin> set (map fst (snd ?m5))"
    and nosearch: "collisions_search \<notin> set (map fst (snd ?m5))"
    using ops_before_modifications [of X B w] by blast+
  have none: "observed_by integrator_synchronize (snd ?m5) = []"
    "observed_by collisions_search (snd ?m5) = []"
    by (rule observed_by_absent [OF nosync], rule observed_by_absent [OF nosearch])
  show ?thesis
    unfolding step Let_def
    using none nosync nosearch
    by (simp add: snd_step_collisions fst_step_modifications snd_step_modifications Let_def
        del: snd_call fst_call)
qed

text \<open>
  The failing input of C4: the symplectic integrator out of safe mode, synchronized at
  entry, no \<^verbatim>\<open>post_timestep_modifications\<close> callback. The step makes no call of
  \<^verbatim>\<open>integrator_synchronize\<close>, and \<^verbatim>\<open>collisions_search\<close> is called on a state whose
  \<^verbatim>\<open>is_synchronized\<close> flag is 0. With a callback registered, the same step synchronizes
  for the callback, and \<^verbatim>\<open>collisions_search\<close> finds the flag at 1.
\<close>

theorem synchronization_only_for_hook_witness:
  "is_synchronized (ri_whfast unsafe) = 1
   \<and> post_timestep_modifications unsafe = 0
   \<and> map fst (snd (rebound_step B0 X0 (unsafe, []))) =
       [integrator_part1, boundaries_check, gravity_calculate_acceleration, integrator_part2,
        boundaries_check, collisions_search, collisions_resolve]
   \<and> observed_by integrator_synchronize (snd (rebound_step B0 X0 (unsafe, []))) = []
   \<and> map (is_synchronized \<circ> ri_whfast)
       (observed_by collisions_search (snd (rebound_step B0 X0 (unsafe, [])))) = [0]
   \<and> map (is_synchronized \<circ> ri_whfast)
       (observed_by collisions_search
         (snd (rebound_step B0 X0 (unsafe\<lparr>post_timestep_modifications := 7\<rparr>, [])))) = [1]"
proof -
  have calls: "map fst (snd (rebound_step B0 X0 (unsafe, []))) =
       [integrator_part1, boundaries_check, gravity_calculate_acceleration, integrator_part2,
        boundaries_check, collisions_search, collisions_resolve]"
    by code_simp
  show ?thesis
    using synchronization_only_for_hook [of X0 B0 unsafe]
      synchronization_only_for_hook [of X0 B0 "unsafe\<lparr>post_timestep_modifications := 7\<rparr>"]
      calls
    by (simp add: Let_def B0_def unsafe_def two_far_def init_defaults_def step_tree_def
        step_forces_def)
qed

subsection \<open>Initialization\<close>

text \<open>
  C8. \<^verbatim>\<open>rebound_init\<close> returns a structure (it never leaves through \<^verbatim>\<open>exit\<close>) with time
  0, gravity constant 1, softening 0, timestep 0.001, one root box in each axis, no
  particles, \<^verbatim>\<open>N_active\<close> equal to -1, the integrator \<^verbatim>\<open>IAS15\<close>, the four callbacks
  \<^verbatim>\<open>NULL\<close>, and the symplectic integrator in safe mode and synchronized.
\<close>

theorem rebound_init_defaults:
  "\<exists>out r. rebound_init B show_logo srand g = (out, returned r)
     \<and> r_t r = 0 \<and> r_G r = 1 \<and> softening r = 0 \<and> r_dt r = 1 / 1000
     \<and> root_nx r = 1 \<and> root_ny r = 1 \<and> root_nz r = 1
     \<and> r_N r = 0 \<and> N_active r = - 1 \<and> integrator r = IAS15
     \<and> additional_forces r = 0 \<and> finished r = 0
     \<and> post_timestep r = 0 \<and> post_timestep_modifications r = 0
     \<and> safe_mode (ri_whfast r) = 1 \<and> is_synchronized (ri_whfast r) = 1"
  by (simp add: rebound_init_def init_validate_def init_defaults_def Let_def)

text \<open>
  The statements of lines 189 to 192, taken by themselves, are the validation that the
  error message of line 190 announces: on any structure they leave through
  \<^verbatim>\<open>exit(-1)\<close>, after the message, exactly when one of the three numbers of root boxes is
  at most 0.
\<close>

lemma init_validate_exits:
  "(init_validate B out r = (out @ [fprintf_root_boxes], process_exit (- 1)))
     = (root_nx r \<le> 0 \<or> root_ny r \<le> 0 \<or> root_nz r \<le> 0)"
  by (auto simp add: init_validate_def)

lemma init_validate_returns:
  "(snd (init_validate B out r) = returned r)
     = (1 \<le> root_nx r \<and> 1 \<le> root_ny r \<and> 1 \<le> root_nz r)"
  by (auto simp add: init_validate_def)




subsection \<open>The monitoring loops\<close>

lemma escape_loop_eq:
  "n \<le> int (length ps) \<Longrightarrow>
   escape_loop fl ps maxR2 n i ret =
     Some (if \<exists>k. i \<le> k \<and> int k < n
                \<and> fl (fl (fl (p_x (ps ! k) * p_x (ps ! k)) + fl (p_y (ps ! k) * p_y (ps ! k)))
                       + fl (p_z (ps ! k) * p_z (ps ! k))) > maxR2
           then 2 else ret)"
proof (induction fl ps maxR2 n i ret rule: escape_loop.induct)
  case (1 fl ps maxR2 n i ret)
  show ?case
  proof (cases "int i < n")
    case False
    then show ?thesis
      by (subst escape_loop.simps) auto
  next
    case True
    with "1.prems" have len: "i < length ps" by simp
    let ?far = "\<lambda>k. fl (fl (fl (p_x (ps ! k) * p_x (ps ! k)) + fl (p_y (ps ! k) * p_y (ps ! k)))
                       + fl (p_z (ps ! k) * p_z (ps ! k))) > maxR2"
    have split: "(\<exists>k. i \<le> k \<and> int k < n \<and> ?far k)
                 \<longleftrightarrow> ?far i \<or> (\<exists>k. Suc i \<le> k \<and> int k < n \<and> ?far k)"
      using True by (metis Suc_leI le_eq_less_or_eq Suc_leD order_refl)
    show ?thesis
      apply (subst escape_loop.simps)
      using True len "1.IH" [OF True len refl refl "1.prems"] split
      by (auto simp add: Let_def)
  qed
qed

lemma check_escape_eq:
  "in_bounds r \<Longrightarrow>
   check_escape fl maxR r ret = Some (if escape_found fl maxR r then 2 else ret)"
  by (auto simp add: check_escape_def in_bounds_def escape_found_def beyond_def escape_loop_eq)

lemma encounter_inner_eq:
  "i \<le> length ps \<Longrightarrow>
   encounter_inner fl ps minD2 q i j ret =
     Some (if \<exists>k. j \<le> k \<and> k < i
                \<and> fl (fl (fl (fl (p_x q - p_x (ps ! k)) * fl (p_x q - p_x (ps ! k)))
                           + fl (fl (p_y q - p_y (ps ! k)) * fl (p_y q - p_y (ps ! k))))
                       + fl (fl (p_z q - p_z (ps ! k)) * fl (p_z q - p_z (ps ! k)))) < minD2
           then 3 else ret)"
proof (induction fl ps minD2 q i j ret rule: encounter_inner.induct)
  case (1 fl ps minD2 q i j ret)
  show ?case
  proof (cases "j < i")
    case False
    then show ?thesis
      by (subst encounter_inner.simps) auto
  next
    case True
    with "1.prems" have len: "j < length ps" by simp
    let ?near = "\<lambda>k. fl (fl (fl (fl (p_x q - p_x (ps ! k)) * fl (p_x q - p_x (ps ! k)))
                           + fl (fl (p_y q - p_y (ps ! k)) * fl (p_y q - p_y (ps ! k))))
                       + fl (fl (p_z q - p_z (ps ! k)) * fl (p_z q - p_z (ps ! k)))) < minD2"
    have split: "(\<exists>k. j \<le> k \<and> k < i \<and> ?near k)
                 \<longleftrightarrow> ?near j \<or> (\<exists>k. Suc j \<le> k \<and> k < i \<and> ?near k)"
      using True by (metis Suc_leI le_eq_less_or_eq Suc_leD order_refl)
    show ?thesis
      apply (subst encounter_inner.simps)
      using True len "1.IH" [OF True len refl refl refl refl refl "1.prems"] split
      by (auto simp add: Let_def)
  qed
qed

lemma encounter_loop_eq:
  "n \<le> int (length ps) \<Longrightarrow>
   encounter_loop fl ps minD2 n i ret =
     Some (if \<exists>a b. i \<le> a \<and> int a < n \<and> b < a
                \<and> fl (fl (fl (fl (p_x (ps ! a) - p_x (ps ! b)) * fl (p_x (ps ! a) - p_x (ps ! b)))
                           + fl (fl (p_y (ps ! a) - p_y (ps ! b)) * fl (p_y (ps ! a) - p_y (ps ! b))))
                       + fl (fl (p_z (ps ! a) - p_z (ps ! b)) * fl (p_z (ps ! a) - p_z (ps ! b))))
                    < minD2
           then 3 else ret)"
proof (induction fl ps minD2 n i ret rule: encounter_loop.induct)
  case (1 fl ps minD2 n i ret)
  show ?case
  proof (cases "int i < n")
    case False
    then show ?thesis
      by (subst encounter_loop.simps) auto
  next
    case True
    with "1.prems" have len: "i < length ps" by simp
    let ?near = "\<lambda>a b.
        fl (fl (fl (fl (p_x (ps ! a) - p_x (ps ! b)) * fl (p_x (ps ! a) - p_x (ps ! b)))
                + fl (fl (p_y (ps ! a) - p_y (ps ! b)) * fl (p_y (ps ! a) - p_y (ps ! b))))
            + fl (fl (p_z (ps ! a) - p_z (ps ! b)) * fl (p_z (ps ! a) - p_z (ps ! b))))
          < minD2"
    let ?row = "\<exists>b. b < i \<and> ?near i b"
    have inner: "encounter_inner fl ps minD2 (ps ! i) i 0 ret = Some (if ?row then 3 else ret)"
      using len by (simp add: encounter_inner_eq)
    have split: "(\<exists>a b. i \<le> a \<and> int a < n \<and> b < a \<and> ?near a b)
                 \<longleftrightarrow> ?row \<or> (\<exists>a b. Suc i \<le> a \<and> int a < n \<and> b < a \<and> ?near a b)"
      using True by (metis Suc_leI le_eq_less_or_eq Suc_leD order_refl)
    show ?thesis
      apply (subst encounter_loop.simps)
      using True len "1.IH" [OF True len inner "1.prems"] split inner
      by (auto simp add: Let_def)
  qed
qed

lemma check_encounter_eq:
  "in_bounds r \<Longrightarrow>
   check_encounter fl minD r ret = Some (if encounter_found fl minD r then 3 else ret)"
  by (auto simp add: check_encounter_def in_bounds_def encounter_found_def closer_def
      encounter_loop_eq)

subsection \<open>The loop, one iteration at a time\<close>

lemma integrate_loop_stop:
  "\<not> running tmax dtsign L (fst m) \<Longrightarrow>
   integrate_loop B X fl tmax maxR minD dtsign L m =
     Some (Returned (ret_value L) (finish X L m))"
  by (subst integrate_loop.simps) simp

lemma integrate_loop_fatal:
  "running tmax dtsign L (fst m) \<Longrightarrow> r_N (fst m) \<le> 0 \<Longrightarrow>
   integrate_loop B X fl tmax maxR minD dtsign L m =
     Some (Returned 1 (libc fprintf_no_particles m))"
  by (subst integrate_loop.simps) simp

lemma integrate_loop_iterate:
  "running tmax dtsign L (fst m) \<Longrightarrow> 0 < r_N (fst m) \<Longrightarrow>
   advance B X fl tmax dtsign L m = (L1, m1) \<Longrightarrow>
   check_escape fl maxR (fst m1) (ret_value L1) = Some e \<Longrightarrow>
   check_encounter fl minD (fst m1) e = Some c \<Longrightarrow>
   integrate_loop B X fl tmax maxR minD dtsign L m =
     integrate_loop B X fl tmax maxR minD dtsign (L1\<lparr>ret_value := c\<rparr>) m1"
  by (subst integrate_loop.simps) (simp add: Let_def)

lemma finish_ret_value [simp]: "finish X (L\<lparr>ret_value := c\<rparr>) m = finish X L m"
  by (simp add: finish_def)

lemma ops_finish:
  "map fst (snd (finish X L m)) =
     map fst (snd m) @ [integrator_synchronize, gettimeofday, printf_finished]"
  by (simp add: finish_def)

lemma integrate_loop_detect:
  assumes run: "running tmax dtsign L (fst m)" and n: "0 < r_N (fst m)"
      and adv: "advance B X fl tmax dtsign L m = (L1, m1)"
      and bounds: "in_bounds (fst m1)"
      and found: "escape_found fl maxR (fst m1) \<or> encounter_found fl minD (fst m1)"
  shows "integrate_loop B X fl tmax maxR minD dtsign L m =
           Some (Returned (if encounter_found fl minD (fst m1) then 3 else 2) (finish X L1 m1))"
proof -
  let ?e = "if escape_found fl maxR (fst m1) then 2 else ret_value L1"
  let ?c = "if encounter_found fl minD (fst m1) then 3 else ?e"
  have c: "?c = (if encounter_found fl minD (fst m1) then 3 else 2)"
    using found by auto
  have "integrate_loop B X fl tmax maxR minD dtsign L m =
          integrate_loop B X fl tmax maxR minD dtsign (L1\<lparr>ret_value := ?c\<rparr>) m1"
    using run n adv check_escape_eq [OF bounds] check_encounter_eq [OF bounds]
    by (rule integrate_loop_iterate)
  also have "\<dots> = Some (Returned ?c (finish X L1 m1))"
    using found by (subst integrate_loop_stop) (auto simp add: running_def)
  finally show ?thesis
    using c by simp
qed

subsection \<open>What the caller sees\<close>

lemma result_code_Returned [simp]: "result_code (Some (Returned c m)) = Some c"
  by (simp add: result_code_def)

lemma final_state_Returned [simp]: "final_state (Some (Returned c m)) = Some (fst m)"
  by (simp add: final_state_def)

lemma final_calls_Returned [simp]: "final_calls (Some (Returned c m)) = Some (map fst (snd m))"
  by (simp add: final_calls_def)

subsection \<open>Escape and close encounter\<close>

text \<open>
  C1, as the claim states it, fails. Two particles, one of them at distance 10 from the
  origin, \<open>maxR = 1\<close>, \<open>tmax = 1\<close>, a timestep of 1/4: the first step raises the escape
  code, and the function returns 2 after that single step, at time 1/4, with
  \<^verbatim>\<open>exit_simulation\<close> still 0 and no final step marked (\<^verbatim>\<open>exact_finish_time\<close> is 0).
  The loop has not gone on to the target time.
\<close>

theorem escape_does_not_continue_counterexample:
  "result_code (rebound_integrate B0 X0 round_double False 1 1 0 (two_far, [])) = Some 2
   \<and> final_calls (rebound_integrate B0 X0 round_double False 1 1 0 (two_far, [])) =
       Some [gettimeofday, integrator_part1, boundaries_check, gravity_calculate_acceleration,
             integrator_part2, boundaries_check, collisions_search, collisions_resolve,
             integrator_synchronize, gettimeofday, printf_finished]
   \<and> map_option r_t (final_state (rebound_integrate B0 X0 round_double False 1 1 0
        (two_far, []))) = Some (1 / 4)
   \<and> map_option exit_simulation (final_state (rebound_integrate B0 X0 round_double False 1 1 0
        (two_far, []))) = Some 0
   \<and> exact_finish_time two_far = 0"
  by code_simp

text \<open>
  C1, amended. When, in an iteration of the loop, the escape check or the close-encounter
  check finds what it looks for (and the particles it reads are inside the array),
  the result code becomes 2, or 3 when the close-encounter check fires, and that
  iteration is the last: the condition of the loop requires \<^verbatim>\<open>ret_value==0\<close>, so the
  only calls after the iteration are those of lines 291 to 295, and the function
  returns the code. Codes 2 and 3 end the loop. This holds whatever the rounding of the
  machine is.
\<close>

theorem detection_ends_loop:
  assumes "running tmax dtsign L (fst m)" and "0 < r_N (fst m)"
      and "advance B X fl tmax dtsign L m = (L1, m1)"
      and "in_bounds (fst m1)"
      and "escape_found fl maxR (fst m1) \<or> encounter_found fl minD (fst m1)"
  shows "result_code (integrate_loop B X fl tmax maxR minD dtsign L m) =
           Some (if encounter_found fl minD (fst m1) then 3 else 2)
         \<and> final_calls (integrate_loop B X fl tmax maxR minD dtsign L m) =
             Some (map fst (snd m1) @ [integrator_synchronize, gettimeofday, printf_finished])"
  using integrate_loop_detect [OF assms] by (simp add: ops_finish)

theorem detection_ends_loop_witness:
  "result_code (integrate_loop B0 X0 round_double 1 1 0 1
      \<lparr>dt_last_done = 1 / 4, last_step = 0, ret_value = 0\<rparr> (two_far, [])) = Some 2
   \<and> final_calls (integrate_loop B0 X0 round_double 1 1 0 1
        \<lparr>dt_last_done = 1 / 4, last_step = 0, ret_value = 0\<rparr> (two_far, [])) =
       Some [integrator_part1, boundaries_check, gravity_calculate_acceleration,
             integrator_part2, boundaries_check, collisions_search, collisions_resolve,
             integrator_synchronize, gettimeofday, printf_finished]"
proof -
  let ?L = "\<lparr>dt_last_done = 1 / 4, last_step = 0, ret_value = 0\<rparr>"
  let ?A = "advance B0 X0 round_double 1 1 ?L (two_far, [])"
  have 1: "running 1 1 ?L (fst (two_far, []))" by code_simp
  have 2: "0 < r_N (fst (two_far, []))" by code_simp
  have 3: "?A = (fst ?A, snd ?A)" by simp
  have 4: "in_bounds (fst (snd ?A))" by code_simp
  have 5: "escape_found round_double 1 (fst (snd ?A))
           \<or> encounter_found round_double 0 (fst (snd ?A))" by code_simp
  have 6: "\<not> encounter_found round_double 0 (fst (snd ?A))" by code_simp
  have 7: "map fst (snd (snd ?A)) =
             [integrator_part1, boundaries_check, gravity_calculate_acceleration,
              integrator_part2, boundaries_check, collisions_search, collisions_resolve]"
    by code_simp
  show ?thesis
    using detection_ends_loop [OF 1 2 3 4 5] 6 7 by simp
qed

text \<open>
  C2, as the claim states it, fails. Two particles at distance 1 from each other and
  10 from the origin, \<open>maxR = 1\<close> and \<open>minD = 2\<close>: both conditions hold in the first
  iteration, and the function returns 3, not 2.
\<close>

theorem escape_priority_counterexample:
  "result_code (rebound_integrate B0 X0 round_double False 1 1 2 (two_near_outside, []))
     = Some 3
   \<and> final_calls (rebound_integrate B0 X0 round_double False 1 1 2 (two_near_outside, [])) =
       Some [gettimeofday, integrator_part1, boundaries_check, gravity_calculate_acceleration,
             integrator_part2, boundaries_check, collisions_search, collisions_resolve,
             integrator_synchronize, gettimeofday, printf_finished]
   \<and> map_option (escape_found round_double 1)
       (final_state (rebound_integrate B0 X0 round_double False 1 1 2 (two_near_outside, [])))
       = Some True
   \<and> map_option (encounter_found round_double 2)
       (final_state (rebound_integrate B0 X0 round_double False 1 1 2 (two_near_outside, [])))
       = Some True"
  by code_simp

text \<open>
  C2, amended. When both the escape condition and the close-encounter condition hold in
  the same iteration of the loop, the escape check sets the code to 2 first, the
  close-encounter check, which runs second, overwrites it with 3, and the function
  returns 3: the later check wins. This holds whatever the rounding of the machine is.
\<close>

theorem encounter_overrides_escape:
  assumes "running tmax dtsign L (fst m)" and "0 < r_N (fst m)"
      and "advance B X fl tmax dtsign L m = (L1, m1)"
      and "in_bounds (fst m1)"
      and "escape_found fl maxR (fst m1)" and "encounter_found fl minD (fst m1)"
  shows "check_escape fl maxR (fst m1) (ret_value L1) = Some 2
         \<and> check_encounter fl minD (fst m1) 2 = Some 3
         \<and> result_code (integrate_loop B X fl tmax maxR minD dtsign L m) = Some 3"
proof -
  have "escape_found fl maxR (fst m1) \<or> encounter_found fl minD (fst m1)"
    using assms(5) by simp
  from integrate_loop_detect [OF assms(1-4) this] show ?thesis
    using assms(4-6) by (simp add: check_escape_eq check_encounter_eq)
qed

theorem encounter_overrides_escape_witness:
  "result_code (integrate_loop B0 X0 round_double 1 1 2 1
      \<lparr>dt_last_done = 1 / 4, last_step = 0, ret_value = 0\<rparr> (two_near_outside, [])) = Some 3"
proof -
  let ?L = "\<lparr>dt_last_done = 1 / 4, last_step = 0, ret_value = 0\<rparr>"
  let ?A = "advance B0 X0 round_double 1 1 ?L (two_near_outside, [])"
  have 1: "running 1 1 ?L (fst (two_near_outside, []))" by code_simp
  have 2: "0 < r_N (fst (two_near_outside, []))" by code_simp
  have 3: "?A = (fst ?A, snd ?A)" by simp
  have 4: "in_bounds (fst (snd ?A))" by code_simp
  have 5: "escape_found round_double 1 (fst (snd ?A))" by code_simp
  have 6: "encounter_found round_double 2 (fst (snd ?A))" by code_simp
  show ?thesis
    using encounter_overrides_escape [OF 1 2 3 4 5 6] by simp
qed

subsection \<open>The return of line 237\<close>

text \<open>
  A call that returns has left the loop in one of two ways: through the return of line
  237, with the code 1, right after the error message, on a state without particles;
  or through the condition of the loop and lines 291 to 295, which call
  \<^verbatim>\<open>integrator_synchronize\<close> and put \<^verbatim>\<open>dt_last_done\<close> back into the timestep.
\<close>

lemma integrate_loop_exit_paths:
  assumes "integrate_loop B X fl tmax maxR minD dtsign L m = Some y"
  shows "\<forall>c m'. y = Returned c m' \<longrightarrow>
           (\<exists>m1. c = 1 \<and> m' = libc fprintf_no_particles m1 \<and> r_N (fst m1) \<le> 0)
           \<or> (\<exists>L1 m1. c = ret_value L1 \<and> m' = finish X L1 m1)"
proof (rule integrate_loop.raw_induct
    [where P = "\<lambda>B X fl tmax maxR minD dtsign L m y. \<forall>c m'. y = Returned c m' \<longrightarrow>
           (\<exists>m1. c = 1 \<and> m' = libc fprintf_no_particles m1 \<and> r_N (fst m1) \<le> 0)
           \<or> (\<exists>L1 m1. c = ret_value L1 \<and> m' = finish X L1 m1)",
     OF _ assms])
  fix loop :: "build \<Rightarrow> 'a ext \<Rightarrow> rounding \<Rightarrow> real \<Rightarrow> real \<Rightarrow> real \<Rightarrow> real \<Rightarrow> locals
                \<Rightarrow> 'a mach \<Rightarrow> 'a outcome option"
  fix B X fl tmax maxR minD dtsign L m y
  assume IH: "\<And>B X fl tmax maxR minD dtsign L m y.
      loop B X fl tmax maxR minD dtsign L m = Some y \<Longrightarrow>
      \<forall>c m'. y = Returned c m' \<longrightarrow>
           (\<exists>m1. c = 1 \<and> m' = libc fprintf_no_particles m1 \<and> r_N (fst m1) \<le> 0)
           \<or> (\<exists>L1 m1. c = ret_value L1 \<and> m' = finish X L1 m1)"
  assume body: "(if running tmax dtsign L (fst m) then
       (if r_N (fst m) \<le> 0 then Some (Returned 1 (libc fprintf_no_particles m))
        else
          (let Lm = advance B X fl tmax dtsign L m
           in case check_escape fl maxR (fst (snd Lm)) (ret_value (fst Lm)) of
                None \<Rightarrow> Some Out_of_bounds
              | Some e \<Rightarrow>
                  (case check_encounter fl minD (fst (snd Lm)) e of
                     None \<Rightarrow> Some Out_of_bounds
                   | Some c \<Rightarrow>
                       loop B X fl tmax maxR minD dtsign
                         ((fst Lm)\<lparr>ret_value := c\<rparr>) (snd Lm))))
     else Some (Returned (ret_value L) (finish X L m))) = Some y"
  show "\<forall>c m'. y = Returned c m' \<longrightarrow>
           (\<exists>m1. c = 1 \<and> m' = libc fprintf_no_particles m1 \<and> r_N (fst m1) \<le> 0)
           \<or> (\<exists>L1 m1. c = ret_value L1 \<and> m' = finish X L1 m1)"
  proof (cases "running tmax dtsign L (fst m)")
    case False
    with body have "y = Returned (ret_value L) (finish X L m)"
      by simp
    then show ?thesis
      by blast
  next
    case run: True
    show ?thesis
    proof (cases "r_N (fst m) \<le> 0")
      case True
      with run body have "y = Returned 1 (libc fprintf_no_particles m)"
        by simp
      with True show ?thesis
        by blast
    next
      case False
      let ?A = "advance B X fl tmax dtsign L m"
      show ?thesis
      proof (intro allI impI)
        fix c m'
        assume y: "y = Returned c m'"
        from run False body y obtain e c' where
          rec: "loop B X fl tmax maxR minD dtsign ((fst ?A)\<lparr>ret_value := c'\<rparr>) (snd ?A) = Some y"
          by (auto simp add: Let_def split: option.splits)
        from IH [OF rec] y
        show "(\<exists>m1. c = 1 \<and> m' = libc fprintf_no_particles m1 \<and> r_N (fst m1) \<le> 0)
           \<or> (\<exists>L1 m1. c = ret_value L1 \<and> m' = finish X L1 m1)"
          by blast
      qed
    qed
  qed
qed

lemma finish_cleanup:
  "r_dt (fst (finish X L m)) = dt_last_done L
   \<and> map fst (snd (finish X L m)) =
       map fst (snd m) @ [integrator_synchronize, gettimeofday, printf_finished]"
  by (simp add: finish_def)

text \<open>
  C3. The return of line 237 leaves the function at once, past the synchronization and
  the restoration of the timestep that every other exit makes. On a state without
  particles, with a timestep of 1/4, \<^verbatim>\<open>exact_finish_time\<close> set and \<open>tmax = 1/8\<close>, line 231
  overwrites the timestep with 1/8, the loop is entered, and the function returns 1:
  the only calls are the first \<^verbatim>\<open>gettimeofday\<close> and the error message, there is no call
  of \<^verbatim>\<open>integrator_synchronize\<close>, and the timestep is left at 1/8.
\<close>

theorem no_particles_return_skips_cleanup:
  "result_code (rebound_integrate B0 X0 round_double False (1 / 8) 0 0
      (empty_state\<lparr>exact_finish_time := 1\<rparr>, [])) = Some 1
   \<and> final_calls (rebound_integrate B0 X0 round_double False (1 / 8) 0 0
        (empty_state\<lparr>exact_finish_time := 1\<rparr>, []))
     = Some [gettimeofday, fprintf_no_particles]
   \<and> map_option r_dt (final_state (rebound_integrate B0 X0 round_double False (1 / 8) 0 0
        (empty_state\<lparr>exact_finish_time := 1\<rparr>, [])))
     = Some (1 / 8)
   \<and> r_dt (empty_state\<lparr>exact_finish_time := 1\<rparr>) = 1 / 4"
  by code_simp

subsection \<open>The statements before the loop\<close>

lemma fst_call_post_timestep:
  "fst (call_post_timestep X m) =
     (if post_timestep (fst m) \<noteq> 0 then X (hook (post_timestep (fst m))) (fst m) else fst m)"
  by (simp add: call_post_timestep_def)

lemma snd_call_post_timestep:
  "snd (call_post_timestep X m) =
     (if post_timestep (fst m) \<noteq> 0 then snd m @ [(hook (post_timestep (fst m)), fst m)]
      else snd m)"
  by (simp add: call_post_timestep_def)

lemma rebound_integrate_eq:
  "rebound_integrate B X fl negative_zero tmax maxR minD m =
    (let s = copysign1 negative_zero (r_dt (fst m));
         L = \<lparr> dt_last_done = r_dt (fst m), last_step = 0, ret_value = 0 \<rparr>;
         m2 = call_post_timestep X (libc gettimeofday m)
     in if overshoot fl tmax s (fst m2)
        then integrate_loop B X fl tmax maxR minD s (L\<lparr>last_step := 1\<rparr>)
               (assign (\<lambda>r. r\<lparr>r_dt := fl (tmax - r_t r)\<rparr>) m2)
        else integrate_loop B X fl tmax maxR minD s L m2)"
  by (simp add: rebound_integrate_def Let_def)

subsection \<open>A call at or past the target time\<close>

text \<open>
  C10, as the claim states it, fails. Two particles at time 2, past \<open>tmax = 1\<close> in the
  direction of the timestep 1/4, with a \<^verbatim>\<open>post_timestep\<close> callback that moves the time
  back to 3/4: the callback is called before the condition of the loop is tested, so
  the loop is entered, a step is executed, and the function returns at time 1, not at
  the time 2 of the entry.
\<close>

theorem priming_hook_counterexample:
  "r_t past_target = 2
   \<and> 0 < r_N past_target
   \<and> \<not> r_t past_target * copysign1 False (r_dt past_target)
         < 1 * copysign1 False (r_dt past_target)
   \<and> result_code (rebound_integrate B0 X1 round_double False 1 0 0 (past_target, [])) = Some 0
   \<and> final_calls (rebound_integrate B0 X1 round_double False 1 0 0 (past_target, [])) =
       Some [gettimeofday, hook 5, integrator_part1, boundaries_check,
             gravity_calculate_acceleration, integrator_part2, boundaries_check,
             collisions_search, collisions_resolve, integrator_synchronize, hook 5,
             integrator_synchronize, gettimeofday, printf_finished]
   \<and> map_option r_t (final_state (rebound_integrate B0 X1 round_double False 1 0 0
        (past_target, []))) = Some 1"
  by code_simp

text \<open>
  C10, amended. The direction of the integration is the sign bit of the timestep at
  entry, a timestep of -0.0 counting as negative. When the time at entry has reached or
  passed \<open>tmax\<close> in that direction, the first call of the \<^verbatim>\<open>post_timestep\<close> callback
  leaves the time as it is, and \<^verbatim>\<open>integrator_synchronize\<close> leaves the time as it is, the
  function returns 0 without a step, on an empty state as on any other: its calls are
  the first \<^verbatim>\<open>gettimeofday\<close>, the \<^verbatim>\<open>post_timestep\<close> callback once when one is registered,
  the final \<^verbatim>\<open>integrator_synchronize\<close>, and the two calls of lines 293 and 295. On return
  the time and the timestep are those of the entry state. When line 231 has overwritten
  the timestep, \<^verbatim>\<open>integrator_synchronize\<close> is called on the state with the timestep
  \<open>tmax - t\<close>, as the machine subtracts, and line 292 puts the entry value back.
\<close>

theorem already_at_tmax:
  assumes hook: "r_t (fst (call_post_timestep X m)) = r_t (fst m)"
      and sync: "\<forall>u. r_t (X integrator_synchronize u) = r_t u"
      and reached: "\<not> r_t (fst m) * copysign1 negative_zero (r_dt (fst m))
                       < tmax * copysign1 negative_zero (r_dt (fst m))"
  shows "\<exists>m'. rebound_integrate B X fl negative_zero tmax maxR minD m = Some (Returned 0 m')
           \<and> map fst (snd m') =
               map fst (snd m) @ [gettimeofday]
               @ (if post_timestep (fst m) \<noteq> 0 then [hook (post_timestep (fst m))] else [])
               @ [integrator_synchronize, gettimeofday, printf_finished]
           \<and> r_t (fst m') = r_t (fst m)
           \<and> r_dt (fst m') = r_dt (fst m)
           \<and> (let p = fst (call_post_timestep X m)
              in overshoot fl tmax (copysign1 negative_zero (r_dt (fst m))) p \<longrightarrow>
                 observed_by integrator_synchronize (snd m') =
                   observed_by integrator_synchronize (snd m)
                   @ [p\<lparr>r_dt := fl (tmax - r_t p)\<rparr>])"
proof -
  let ?s = "copysign1 negative_zero (r_dt (fst m))"
  let ?L = "\<lparr> dt_last_done = r_dt (fst m), last_step = 0, ret_value = 0 \<rparr>"
  let ?m2 = "call_post_timestep X (libc gettimeofday m)"
  have p: "fst ?m2 = fst (call_post_timestep X m)"
    by (simp add: fst_call_post_timestep)
  have t2: "r_t (fst ?m2) = r_t (fst m)"
    using hook by (simp add: p)
  have stop1: "\<not> running tmax ?s L' (fst ?m2)" for L'
    using reached t2 by (simp add: running_def)
  have stop2: "\<not> running tmax ?s L' (fst (assign (\<lambda>r. r\<lparr>r_dt := fl (tmax - r_t r)\<rparr>) ?m2))"
    for L'
    using reached t2 by (simp add: running_def)
  show ?thesis
  proof (cases "overshoot fl tmax ?s (fst ?m2)")
    case True
    then have "rebound_integrate B X fl negative_zero tmax maxR minD m =
        Some (Returned 0 (finish X (?L\<lparr>last_step := 1\<rparr>)
          (assign (\<lambda>r. r\<lparr>r_dt := fl (tmax - r_t r)\<rparr>) ?m2)))"
      by (simp add: rebound_integrate_eq Let_def integrate_loop_stop [OF stop2])
    then show ?thesis
      using True sync t2 p
      by (simp add: finish_def snd_call_post_timestep Let_def)
  next
    case False
    then have "rebound_integrate B X fl negative_zero tmax maxR minD m =
        Some (Returned 0 (finish X ?L ?m2))"
      by (simp add: rebound_integrate_eq Let_def integrate_loop_stop [OF stop1])
    then show ?thesis
      using False sync t2 p
      by (simp add: finish_def snd_call_post_timestep Let_def)
  qed
qed

text \<open>
  Two instances: the state of the counterexample with callbacks that leave the state as
  it is, and a state at time 0 with a timestep of -0.0 and \<open>tmax = 1\<close>, which lies
  behind the time in the direction of that timestep.
\<close>

theorem already_at_tmax_witness:
  "(\<exists>m'. rebound_integrate B0 X0 round_double False 1 0 0 (past_target, [])
            = Some (Returned 0 m')
      \<and> map fst (snd m') =
          [gettimeofday, hook 5, integrator_synchronize, gettimeofday, printf_finished]
      \<and> r_t (fst m') = 2
      \<and> r_dt (fst m') = 1 / 4
      \<and> map r_dt (observed_by integrator_synchronize (snd m')) = [- 1])
   \<and> (\<exists>m'. rebound_integrate B0 X0 round_double True 1 0 0 (two_far\<lparr>r_dt := 0\<rparr>, [])
            = Some (Returned 0 m')
      \<and> map fst (snd m') = [gettimeofday, integrator_synchronize, gettimeofday, printf_finished]
      \<and> r_t (fst m') = 0
      \<and> r_dt (fst m') = 0)"
proof -
  let ?m = "(past_target, [] :: unit log)"
  let ?n = "(two_far\<lparr>r_dt := 0\<rparr>, [] :: unit log)"
  have 1: "r_t (fst (call_post_timestep X0 ?m)) = r_t (fst ?m)"
    "r_t (fst (call_post_timestep X0 ?n)) = r_t (fst ?n)"
    by code_simp+
  have 2: "\<forall>u. r_t (X0 integrator_synchronize u) = r_t u" by simp
  have 3: "\<not> r_t (fst ?m) * copysign1 False (r_dt (fst ?m))
             < 1 * copysign1 False (r_dt (fst ?m))"
    "\<not> r_t (fst ?n) * copysign1 True (r_dt (fst ?n))
             < 1 * copysign1 True (r_dt (fst ?n))"
    by code_simp+
  have 4: "overshoot round_double 1 (copysign1 False (r_dt (fst ?m)))
             (fst (call_post_timestep X0 ?m))"
    by code_simp
  have 5: "r_t (fst ?m) = 2" "r_dt (fst ?m) = 1 / 4"
    "post_timestep (fst ?m) = 5" "snd ?m = []"
    "r_dt ((fst (call_post_timestep X0 ?m))
        \<lparr>r_dt := round_double (1 - r_t (fst (call_post_timestep X0 ?m)))\<rparr>) = - 1"
    "r_t (fst ?n) = 0" "r_dt (fst ?n) = 0" "post_timestep (fst ?n) = 0" "snd ?n = []"
    by code_simp+
  have a: "\<exists>m'. rebound_integrate B0 X0 round_double False 1 0 0 ?m = Some (Returned 0 m')
      \<and> map fst (snd m') =
          [gettimeofday, hook 5, integrator_synchronize, gettimeofday, printf_finished]
      \<and> r_t (fst m') = 2
      \<and> r_dt (fst m') = 1 / 4
      \<and> map r_dt (observed_by integrator_synchronize (snd m')) = [- 1]"
    using already_at_tmax [OF 1(1) 2 3(1), of B0 round_double 0 0] 4 5
    by (auto simp add: Let_def simp del: fst_conv snd_conv)
  have b: "\<exists>m'. rebound_integrate B0 X0 round_double True 1 0 0 ?n = Some (Returned 0 m')
      \<and> map fst (snd m') = [gettimeofday, integrator_synchronize, gettimeofday, printf_finished]
      \<and> r_t (fst m') = 0
      \<and> r_dt (fst m') = 0"
    using already_at_tmax [OF 1(2) 2 3(2), of B0 round_double 0 0] 5
    by (auto simp add: Let_def simp del: fst_conv snd_conv)
  from a b show ?thesis ..
qed

subsection \<open>The result code 1\<close>

lemma escape_loop_cases: "escape_loop fl ps maxR2 n i ret = Some e \<Longrightarrow> e = ret \<or> e = 2"
proof (induction fl ps maxR2 n i ret rule: escape_loop.induct)
  case (1 fl ps maxR2 n i ret)
  from "1.prems" show ?case
    by (subst (asm) escape_loop.simps)
       (auto simp add: Let_def split: if_splits dest!: "1.IH" [OF _ _ refl refl])
qed

lemma check_escape_cases: "check_escape fl maxR r ret = Some e \<Longrightarrow> e = ret \<or> e = 2"
  by (auto simp add: check_escape_def split: if_splits dest: escape_loop_cases)

lemma encounter_inner_cases:
  "encounter_inner fl ps minD2 q i j ret = Some e \<Longrightarrow> e = ret \<or> e = 3"
proof (induction fl ps minD2 q i j ret rule: encounter_inner.induct)
  case (1 fl ps minD2 q i j ret)
  from "1.prems" show ?case
    by (subst (asm) encounter_inner.simps)
       (auto simp add: Let_def split: if_splits dest!: "1.IH" [OF _ _ refl refl refl refl refl])
qed

lemma encounter_loop_cases:
  "encounter_loop fl ps minD2 n i ret = Some e \<Longrightarrow> e = ret \<or> e = 3"
proof (induction fl ps minD2 n i ret rule: encounter_loop.induct)
  case (1 fl ps minD2 n i ret)
  show ?case
  proof (cases "int i < n")
    case False
    with "1.prems" show ?thesis
      by (subst (asm) encounter_loop.simps) simp
  next
    case True
    with "1.prems" obtain ret' where
      len: "i < length ps" and
      inner: "encounter_inner fl ps minD2 (ps ! i) i 0 ret = Some ret'" and
      rest: "encounter_loop fl ps minD2 n (Suc i) ret' = Some e"
      by (subst (asm) encounter_loop.simps) (auto split: if_splits option.splits)
    from "1.IH" [OF True len inner rest] encounter_inner_cases [OF inner] show ?thesis
      by auto
  qed
qed

lemma check_encounter_cases: "check_encounter fl minD r ret = Some e \<Longrightarrow> e = ret \<or> e = 3"
  by (auto simp add: check_encounter_def split: if_splits dest: encounter_loop_cases)

lemma ret_value_truncate_step [simp]:
  "ret_value (fst (truncate_step X fl tmax dtsign L m)) = ret_value L"
  by (simp add: truncate_step_def)

lemma ret_value_advance [simp]:
  "ret_value (fst (advance B X fl tmax dtsign L m)) = ret_value L"
  by (simp add: advance_def Let_def)

lemma integrate_loop_code_1:
  assumes "integrate_loop B X fl tmax maxR minD dtsign L m = Some y"
  shows "ret_value L \<noteq> 1 \<longrightarrow>
     (\<forall>m'. y = Returned 1 m' \<longrightarrow>
        (\<exists>l. snd m' = l @ [(fprintf_no_particles, fst m')]) \<and> r_N (fst m') \<le> 0)"
proof (rule integrate_loop.raw_induct
    [where P = "\<lambda>B X fl tmax maxR minD dtsign L m y. ret_value L \<noteq> 1 \<longrightarrow>
       (\<forall>m'. y = Returned 1 m' \<longrightarrow>
          (\<exists>l. snd m' = l @ [(fprintf_no_particles, fst m')]) \<and> r_N (fst m') \<le> 0)",
     OF _ assms])
  fix loop :: "build \<Rightarrow> 'a ext \<Rightarrow> rounding \<Rightarrow> real \<Rightarrow> real \<Rightarrow> real \<Rightarrow> real \<Rightarrow> locals
                \<Rightarrow> 'a mach \<Rightarrow> 'a outcome option"
  fix B X fl tmax maxR minD dtsign L m y
  assume IH: "\<And>B X fl tmax maxR minD dtsign L m y.
      loop B X fl tmax maxR minD dtsign L m = Some y \<Longrightarrow>
      ret_value L \<noteq> 1 \<longrightarrow>
       (\<forall>m'. y = Returned 1 m' \<longrightarrow>
          (\<exists>l. snd m' = l @ [(fprintf_no_particles, fst m')]) \<and> r_N (fst m') \<le> 0)"
  assume body: "(if running tmax dtsign L (fst m) then
       (if r_N (fst m) \<le> 0 then Some (Returned 1 (libc fprintf_no_particles m))
        else
          (let Lm = advance B X fl tmax dtsign L m
           in case check_escape fl maxR (fst (snd Lm)) (ret_value (fst Lm)) of
                None \<Rightarrow> Some Out_of_bounds
              | Some e \<Rightarrow>
                  (case check_encounter fl minD (fst (snd Lm)) e of
                     None \<Rightarrow> Some Out_of_bounds
                   | Some c \<Rightarrow>
                       loop B X fl tmax maxR minD dtsign
                         ((fst Lm)\<lparr>ret_value := c\<rparr>) (snd Lm))))
     else Some (Returned (ret_value L) (finish X L m))) = Some y"
  show "ret_value L \<noteq> 1 \<longrightarrow>
       (\<forall>m'. y = Returned 1 m' \<longrightarrow>
          (\<exists>l. snd m' = l @ [(fprintf_no_particles, fst m')]) \<and> r_N (fst m') \<le> 0)"
  proof (intro impI allI)
    fix m'
    assume ret: "ret_value L \<noteq> 1" and y: "y = Returned 1 m'"
    show "(\<exists>l. snd m' = l @ [(fprintf_no_particles, fst m')]) \<and> r_N (fst m') \<le> 0"
    proof (cases "running tmax dtsign L (fst m)")
      case False
      with body ret y show ?thesis by simp
    next
      case run: True
      show ?thesis
      proof (cases "r_N (fst m) \<le> 0")
        case True
        with run body y show ?thesis by auto
      next
        case False
        let ?A = "advance B X fl tmax dtsign L m"
        from run False body obtain e c where
          e: "check_escape fl maxR (fst (snd ?A)) (ret_value (fst ?A)) = Some e" and
          c: "check_encounter fl minD (fst (snd ?A)) e = Some c" and
          rec: "loop B X fl tmax maxR minD dtsign ((fst ?A)\<lparr>ret_value := c\<rparr>) (snd ?A) = Some y"
          using y by (auto simp add: Let_def split: option.splits)
        from check_escape_cases [OF e] check_encounter_cases [OF c] ret
        have "ret_value ((fst ?A)\<lparr>ret_value := c\<rparr>) \<noteq> 1" by auto
        with IH [OF rec] y show ?thesis by blast
      qed
    qed
  qed
qed

text \<open>
  C6, as the claim states it, fails. On a state without particles at time 0, a call with
  \<open>tmax = 0\<close> does not enter the loop, where the test of the number of particles is, and
  returns 0. And on a state without particles whose \<^verbatim>\<open>post_timestep\<close> callback puts
  particles into the simulation, a call with \<open>tmax = 1/4\<close> makes a step and returns 0 at
  time 1/4: the callback is called before the number of particles is tested.
\<close>

theorem no_particles_counterexample:
  "r_N empty_state = 0
   \<and> result_code (rebound_integrate B0 X0 round_double False 0 0 0 (empty_state, [])) = Some 0
   \<and> final_calls (rebound_integrate B0 X0 round_double False 0 0 0 (empty_state, [])) =
       Some [gettimeofday, integrator_synchronize, gettimeofday, printf_finished]
   \<and> r_N (empty_state\<lparr>post_timestep := 5\<rparr>) = 0
   \<and> r_t (empty_state\<lparr>post_timestep := 5\<rparr>) = 0
   \<and> result_code (rebound_integrate B0 X2 round_double False (1 / 4) 0 0
        (empty_state\<lparr>post_timestep := 5\<rparr>, [])) = Some 0
   \<and> map_option r_t (final_state (rebound_integrate B0 X2 round_double False (1 / 4) 0 0
        (empty_state\<lparr>post_timestep := 5\<rparr>, []))) = Some (1 / 4)"
  by code_simp

text \<open>
  C6, amended. Let \<open>p\<close> be the state after the first call of the \<^verbatim>\<open>post_timestep\<close>
  callback (\<open>p\<close> is the entry state when no callback is registered), and let the
  direction of the integration be the sign bit of the timestep at entry, a timestep of
  -0.0 counting as negative. When \<open>p\<close> has \<^verbatim>\<open>N <= 0\<close>, the time of \<open>p\<close> is before \<open>tmax\<close> in
  that direction and \<^verbatim>\<open>exit_simulation\<close> is 0 in \<open>p\<close>, the function returns 1: no step is
  made, the last call is the error message, and the time is that of \<open>p\<close>. When the time
  of \<open>p\<close> is not before \<open>tmax\<close> in that direction, or \<^verbatim>\<open>exit_simulation\<close> is not 0 in \<open>p\<close>,
  the loop is not entered and the function returns 0, with or without particles. The
  result code 1 comes from line 237 and from nowhere else: whenever the function returns
  1, its last call is the error message, on a state with \<^verbatim>\<open>N <= 0\<close>.
\<close>

theorem no_particles_fatal:
  "(let s = copysign1 negative_zero (r_dt (fst m)); p = fst (call_post_timestep X m)
    in (r_N p \<le> 0 \<and> r_t p * s < tmax * s \<and> exit_simulation p = 0 \<longrightarrow>
          (\<exists>m'. rebound_integrate B X fl negative_zero tmax maxR minD m = Some (Returned 1 m')
             \<and> map fst (snd m') =
                 map fst (snd m) @ [gettimeofday]
                 @ (if post_timestep (fst m) \<noteq> 0 then [hook (post_timestep (fst m))] else [])
                 @ [fprintf_no_particles]
             \<and> r_t (fst m') = r_t p))
       \<and> (post_timestep (fst m) = 0 \<longrightarrow> p = fst m)
       \<and> (\<not> (r_t p * s < tmax * s \<and> exit_simulation p = 0) \<longrightarrow>
            result_code (rebound_integrate B X fl negative_zero tmax maxR minD m) = Some 0)
       \<and> (\<forall>m'. rebound_integrate B X fl negative_zero tmax maxR minD m = Some (Returned 1 m')
            \<longrightarrow> r_N (fst m') \<le> 0 \<and> (\<exists>l. snd m' = l @ [(fprintf_no_particles, fst m')])))"
proof -
  define s where "s = copysign1 negative_zero (r_dt (fst m))"
  define p where "p = fst (call_post_timestep X m)"
  define L where "L = \<lparr> dt_last_done = r_dt (fst m), last_step = 0, ret_value = 0 \<rparr>"
  define m2 where "m2 = call_post_timestep X (libc gettimeofday m)"
  define m3 where "m3 = assign (\<lambda>r. r\<lparr>r_dt := fl (tmax - r_t r)\<rparr>) m2"
  have p2: "fst m2 = p"
    by (simp add: m2_def p_def fst_call_post_timestep)
  have log2: "map fst (snd m2) = map fst (snd m) @ [gettimeofday]
      @ (if post_timestep (fst m) \<noteq> 0 then [hook (post_timestep (fst m))] else [])"
    by (simp add: m2_def snd_call_post_timestep)
  have eq: "rebound_integrate B X fl negative_zero tmax maxR minD m =
      (if overshoot fl tmax s p
       then integrate_loop B X fl tmax maxR minD s (L\<lparr>last_step := 1\<rparr>) m3
       else integrate_loop B X fl tmax maxR minD s L m2)"
    by (simp add: rebound_integrate_eq Let_def s_def L_def m2_def m3_def p2 [unfolded m2_def])
  have fatal: "\<exists>m'. rebound_integrate B X fl negative_zero tmax maxR minD m
                 = Some (Returned 1 m')
             \<and> map fst (snd m') =
                 map fst (snd m) @ [gettimeofday]
                 @ (if post_timestep (fst m) \<noteq> 0 then [hook (post_timestep (fst m))] else [])
                 @ [fprintf_no_particles]
             \<and> r_t (fst m') = r_t p"
    if "r_N p \<le> 0 \<and> r_t p * s < tmax * s \<and> exit_simulation p = 0"
  proof (cases "overshoot fl tmax s p")
    case True
    have "running tmax s (L\<lparr>last_step := 1\<rparr>) (fst m3)"
      using that by (simp add: m3_def p2 running_def L_def)
    moreover have "r_N (fst m3) \<le> 0"
      using that by (simp add: m3_def p2)
    ultimately have "integrate_loop B X fl tmax maxR minD s (L\<lparr>last_step := 1\<rparr>) m3
        = Some (Returned 1 (libc fprintf_no_particles m3))"
      by (rule integrate_loop_fatal)
    with True eq log2 show ?thesis
      by (simp add: m3_def p2)
  next
    case False
    have "running tmax s L (fst m2)"
      using that by (simp add: p2 running_def L_def)
    moreover have "r_N (fst m2) \<le> 0"
      using that by (simp add: p2)
    ultimately have "integrate_loop B X fl tmax maxR minD s L m2
        = Some (Returned 1 (libc fprintf_no_particles m2))"
      by (rule integrate_loop_fatal)
    with False eq log2 show ?thesis
      by (simp add: p2)
  qed
  have skipped: "result_code (rebound_integrate B X fl negative_zero tmax maxR minD m) = Some 0"
    if "\<not> (r_t p * s < tmax * s \<and> exit_simulation p = 0)"
  proof -
    have "\<not> running tmax s (L\<lparr>last_step := 1\<rparr>) (fst m3)" "\<not> running tmax s L (fst m2)"
      using that by (auto simp add: m3_def p2 running_def)
    then have "integrate_loop B X fl tmax maxR minD s (L\<lparr>last_step := 1\<rparr>) m3 =
        Some (Returned (ret_value (L\<lparr>last_step := 1\<rparr>)) (finish X (L\<lparr>last_step := 1\<rparr>) m3))"
      "integrate_loop B X fl tmax maxR minD s L m2 =
        Some (Returned (ret_value L) (finish X L m2))"
      by (simp_all add: integrate_loop_stop)
    with eq show ?thesis
      by (simp add: L_def)
  qed
  have only: "r_N (fst m') \<le> 0 \<and> (\<exists>l. snd m' = l @ [(fprintf_no_particles, fst m')])"
    if "rebound_integrate B X fl negative_zero tmax maxR minD m = Some (Returned 1 m')" for m'
  proof (cases "overshoot fl tmax s p")
    case True
    with that eq have "integrate_loop B X fl tmax maxR minD s (L\<lparr>last_step := 1\<rparr>) m3
        = Some (Returned 1 m')" by simp
    from integrate_loop_code_1 [OF this] show ?thesis
      by (simp add: L_def)
  next
    case False
    with that eq have "integrate_loop B X fl tmax maxR minD s L m2 = Some (Returned 1 m')"
      by simp
    from integrate_loop_code_1 [OF this] show ?thesis
      by (simp add: L_def)
  qed
  have same: "post_timestep (fst m) = 0 \<longrightarrow> p = fst m"
    by (simp add: p_def fst_call_post_timestep)
  from fatal skipped only same show ?thesis
    unfolding Let_def s_def [symmetric] p_def [symmetric] by blast
qed

text \<open>
  Three instances on the state without particles and without callback: with \<open>tmax = 1\<close>
  the function returns 1 at time 0; with \<open>tmax = 0\<close> it returns 0; and with a timestep of
  -0.0 and \<open>tmax = -1\<close>, which lies ahead in the direction of that timestep, it returns 1.
\<close>

theorem no_particles_fatal_witness:
  "(\<exists>m'. rebound_integrate B0 X0 round_double False 1 0 0 (empty_state, [])
            = Some (Returned 1 m')
      \<and> map fst (snd m') = [gettimeofday, fprintf_no_particles]
      \<and> r_t (fst m') = 0)
   \<and> result_code (rebound_integrate B0 X0 round_double False 0 0 0 (empty_state, [])) = Some 0
   \<and> (\<exists>m'. rebound_integrate B0 X0 round_double True (- 1) 0 0 (empty_state\<lparr>r_dt := 0\<rparr>, [])
            = Some (Returned 1 m')
      \<and> map fst (snd m') = [gettimeofday, fprintf_no_particles]
      \<and> r_t (fst m') = 0)"
proof -
  let ?m = "(empty_state, [] :: unit log)"
  let ?p = "fst (call_post_timestep X0 ?m)"
  let ?s = "copysign1 False (r_dt (fst ?m))"
  let ?n = "(empty_state\<lparr>r_dt := 0\<rparr>, [] :: unit log)"
  let ?q = "fst (call_post_timestep X0 ?n)"
  let ?z = "copysign1 True (r_dt (fst ?n))"
  have a: "r_N ?p \<le> 0 \<and> r_t ?p * ?s < 1 * ?s \<and> exit_simulation ?p = 0"
    by code_simp
  have b: "\<not> (r_t ?p * ?s < 0 * ?s \<and> exit_simulation ?p = 0)"
    by code_simp
  have c: "map fst (snd ?m) @ [gettimeofday]
      @ (if post_timestep (fst ?m) \<noteq> 0 then [hook (post_timestep (fst ?m))] else [])
      @ [fprintf_no_particles] = [gettimeofday, fprintf_no_particles]"
    "r_t ?p = 0"
    by code_simp+
  have d: "r_N ?q \<le> 0 \<and> r_t ?q * ?z < (- 1) * ?z \<and> exit_simulation ?q = 0"
    by code_simp
  have e: "map fst (snd ?n) @ [gettimeofday]
      @ (if post_timestep (fst ?n) \<noteq> 0 then [hook (post_timestep (fst ?n))] else [])
      @ [fprintf_no_particles] = [gettimeofday, fprintf_no_particles]"
    "r_t ?q = 0"
    by code_simp+
  have "\<exists>m'. rebound_integrate B0 X0 round_double False 1 0 0 ?m = Some (Returned 1 m')
      \<and> map fst (snd m') = map fst (snd ?m) @ [gettimeofday]
          @ (if post_timestep (fst ?m) \<noteq> 0 then [hook (post_timestep (fst ?m))] else [])
          @ [fprintf_no_particles]
      \<and> r_t (fst m') = r_t ?p"
    by (rule no_particles_fatal [where m = ?m and X = X0 and tmax = 1 and B = B0
          and fl = round_double and negative_zero = False and maxR = 0 and minD = 0,
          unfolded Let_def, THEN conjunct1, THEN mp, OF a])
  then have 1: "\<exists>m'. rebound_integrate B0 X0 round_double False 1 0 0 ?m
        = Some (Returned 1 m')
      \<and> map fst (snd m') = [gettimeofday, fprintf_no_particles] \<and> r_t (fst m') = 0"
    by (simp only: c)
  have 2: "result_code (rebound_integrate B0 X0 round_double False 0 0 0 ?m) = Some 0"
    by (rule no_particles_fatal [where m = ?m and X = X0 and tmax = 0 and B = B0
          and fl = round_double and negative_zero = False and maxR = 0 and minD = 0,
          unfolded Let_def, THEN conjunct2, THEN conjunct2, THEN conjunct1, THEN mp, OF b])
  have "\<exists>m'. rebound_integrate B0 X0 round_double True (- 1) 0 0 ?n = Some (Returned 1 m')
      \<and> map fst (snd m') = map fst (snd ?n) @ [gettimeofday]
          @ (if post_timestep (fst ?n) \<noteq> 0 then [hook (post_timestep (fst ?n))] else [])
          @ [fprintf_no_particles]
      \<and> r_t (fst m') = r_t ?q"
    by (rule no_particles_fatal [where m = ?n and X = X0 and tmax = "- 1" and B = B0
          and fl = round_double and negative_zero = True and maxR = 0 and minD = 0,
          unfolded Let_def, THEN conjunct1, THEN mp, OF d])
  then have 3: "\<exists>m'. rebound_integrate B0 X0 round_double True (- 1) 0 0 ?n
        = Some (Returned 1 m')
      \<and> map fst (snd m') = [gettimeofday, fprintf_no_particles] \<and> r_t (fst m') = 0"
    by (simp only: e)
  from 1 2 3 show ?thesis
    by (intro conjI)
qed

subsection \<open>Exact finish time\<close>

lemma advance_eq:
  "advance B X fl tmax s L m =
    (let m2 = (if OPENGL B then call X display (rebound_step B X m) else rebound_step B X m)
     in if overshoot fl tmax s (fst m2)
        then (L\<lparr>last_step := last_step L + 1\<rparr>,
              call_post_timestep X
                (assign (\<lambda>r. r\<lparr>r_dt := fl (tmax - r_t r)\<rparr>) (call X integrator_synchronize m2)))
        else (L\<lparr>dt_last_done := r_dt (fst m2)\<rparr>, call_post_timestep X m2))"
  by (simp add: advance_def truncate_step_def Let_def)

lemma finish_last_step [simp]: "finish X (L\<lparr>last_step := k\<rparr>) m = finish X L m"
  by (simp add: finish_def)

text \<open>
  C5, as the claim states it, fails. The time is the double 0.32, the timestep the double
  0.53 and \<open>tmax\<close> the double 0.83, with \<^verbatim>\<open>exact_finish_time\<close> set. Line 231 sets the
  timestep to the difference of \<open>tmax\<close> and the time, which the machine rounds; the one
  step of the loop adds it to the time, which the machine rounds again; the function
  returns 0 with the timestep restored to 0.53 and the time one unit in the last place
  above \<open>tmax\<close>.
\<close>

theorem inexact_landing_counterexample:
  "exact_finish_time inexact = 1
   \<and> result_code (rebound_integrate B0 X0 round_double False (round_double (83 / 100)) 0 0
        (inexact, [])) = Some 0
   \<and> final_calls (rebound_integrate B0 X0 round_double False (round_double (83 / 100)) 0 0
        (inexact, [])) =
       Some [gettimeofday, integrator_part1, boundaries_check, gravity_calculate_acceleration,
             integrator_part2, boundaries_check, collisions_search, collisions_resolve,
             integrator_synchronize, integrator_synchronize, gettimeofday, printf_finished]
   \<and> map_option r_t (final_state (rebound_integrate B0 X0 round_double False
        (round_double (83 / 100)) 0 0 (inexact, [])))
       = Some (round_double (83 / 100) + 1 / 2 ^ 53)
   \<and> map_option r_t (final_state (rebound_integrate B0 X0 round_double False
        (round_double (83 / 100)) 0 0 (inexact, [])))
       \<noteq> Some (round_double (83 / 100))
   \<and> map_option r_dt (final_state (rebound_integrate B0 X0 round_double False
        (round_double (83 / 100)) 0 0 (inexact, [])))
       = Some (r_dt inexact)
   \<and> r_t inexact = 5764607523034235 / 2 ^ 54
   \<and> r_dt inexact = 2386907802506363 / 2 ^ 52
   \<and> round_double (83 / 100) = 7475975381435023 / 2 ^ 53"
  by code_simp

text \<open>
  C5, amended. In an iteration of the loop, after the step and the display (\<open>m2\<close> is the
  state they leave): when \<^verbatim>\<open>exact_finish_time\<close> is 1 and the sum of the time and the
  timestep, as the machine adds them, reaches or passes \<open>tmax\<close> in the direction of the
  integration (\<open>over\<close>), the function calls \<^verbatim>\<open>integrator_synchronize\<close>, sets the timestep
  to \<open>tmax - t\<close>, as the machine subtracts them, and increments \<^verbatim>\<open>last_step\<close>; otherwise
  it stores the timestep, as it stands after the step, in \<^verbatim>\<open>dt_last_done\<close>. Then it calls
  the \<^verbatim>\<open>post_timestep\<close> callback and makes the two monitoring checks, and the loop goes on
  from there. The loop ends as soon as \<^verbatim>\<open>last_step < 2\<close> fails. From a loop state with
  \<^verbatim>\<open>last_step\<close> equal to 1, when the test fires again after the step, that step is the
  last one: the function returns, with the timestep restored to \<^verbatim>\<open>dt_last_done\<close>. When,
  besides, the timestep was \<open>tmax - t\<close> as the machine subtracts them, the step has
  moved the time to the sum of the time and the timestep as the machine adds them, and
  the callbacks and \<^verbatim>\<open>integrator_synchronize\<close> leave the time as it is, the time on
  return is that sum of the machine, \<open>t + (tmax - t)\<close> with two roundings, which need
  not be \<open>tmax\<close>.
\<close>

theorem exact_finish_time_truncation:
  "(let m2 = (if OPENGL B then call X display (rebound_step B X m) else rebound_step B X m);
        over = (fl (r_t (fst m2) + r_dt (fst m2)) * s \<ge> tmax * s
                \<and> exact_finish_time (fst m2) = 1);
        L1 = (if over then L\<lparr>last_step := last_step L + 1\<rparr>
              else L\<lparr>dt_last_done := r_dt (fst m2)\<rparr>);
        m1 = call_post_timestep X
               (if over
                then assign (\<lambda>r. r\<lparr>r_dt := fl (tmax - r_t r)\<rparr>)
                       (call X integrator_synchronize m2)
                else m2);
        c = (if encounter_found fl minD (fst m1) then 3
             else if escape_found fl maxR (fst m1) then 2 else ret_value L)
    in (running tmax s L (fst m) \<and> 0 < r_N (fst m) \<and> in_bounds (fst m1) \<longrightarrow>
          integrate_loop B X fl tmax maxR minD s L m =
            integrate_loop B X fl tmax maxR minD s (L1\<lparr>ret_value := c\<rparr>) m1)
       \<and> (2 \<le> last_step L \<longrightarrow>
            integrate_loop B X fl tmax maxR minD s L m =
              Some (Returned (ret_value L) (finish X L m)))
       \<and> (running tmax s L (fst m) \<and> 0 < r_N (fst m) \<and> in_bounds (fst m1)
            \<and> last_step L = 1 \<and> over \<longrightarrow>
            integrate_loop B X fl tmax maxR minD s L m = Some (Returned c (finish X L m1))
            \<and> r_dt (fst (finish X L m1)) = dt_last_done L
            \<and> ((\<forall>a u. r_t (X (hook a) u) = r_t u)
                 \<and> (\<forall>u. r_t (X integrator_synchronize u) = r_t u)
                 \<and> r_t (fst m2) = fl (r_t (fst m) + r_dt (fst m))
                 \<and> r_dt (fst m) = fl (tmax - r_t (fst m)) \<longrightarrow>
                 r_t (fst (finish X L m1)) = fl (r_t (fst m) + fl (tmax - r_t (fst m))))))"
proof -
  let ?m2 = "(if OPENGL B then call X display (rebound_step B X m) else rebound_step B X m)"
  let ?over = "fl (r_t (fst ?m2) + r_dt (fst ?m2)) * s \<ge> tmax * s
                \<and> exact_finish_time (fst ?m2) = 1"
  let ?L1 = "(if ?over then L\<lparr>last_step := last_step L + 1\<rparr>
              else L\<lparr>dt_last_done := r_dt (fst ?m2)\<rparr>)"
  let ?m1 = "call_post_timestep X
               (if ?over
                then assign (\<lambda>r. r\<lparr>r_dt := fl (tmax - r_t r)\<rparr>)
                       (call X integrator_synchronize ?m2)
                else ?m2)"
  let ?c = "(if encounter_found fl minD (fst ?m1) then 3
             else if escape_found fl maxR (fst ?m1) then 2 else ret_value L)"
  have adv: "advance B X fl tmax s L m = (?L1, ?m1)"
    by (simp add: advance_eq Let_def overshoot_def)
  have iter: "integrate_loop B X fl tmax maxR minD s L m =
            integrate_loop B X fl tmax maxR minD s (?L1\<lparr>ret_value := ?c\<rparr>) ?m1"
    if run: "running tmax s L (fst m)" and n: "0 < r_N (fst m)" and bounds: "in_bounds (fst ?m1)"
  proof -
    have e: "check_escape fl maxR (fst ?m1) (ret_value ?L1) =
        Some (if escape_found fl maxR (fst ?m1) then 2 else ret_value L)"
      using check_escape_eq [OF bounds, of fl maxR "ret_value ?L1"] by simp
    have c: "check_encounter fl minD (fst ?m1)
          (if escape_found fl maxR (fst ?m1) then 2 else ret_value L) = Some ?c"
      using check_encounter_eq [OF bounds] by simp
    from run n adv e c show ?thesis
      by (rule integrate_loop_iterate)
  qed
  have stop: "integrate_loop B X fl tmax maxR minD s L m =
              Some (Returned (ret_value L) (finish X L m))"
    if "2 \<le> last_step L"
    using that by (intro integrate_loop_stop) (simp add: running_def)
  have final: "integrate_loop B X fl tmax maxR minD s L m = Some (Returned ?c (finish X L ?m1))"
    if run: "running tmax s L (fst m)" and n: "0 < r_N (fst m)" and bounds: "in_bounds (fst ?m1)"
      and last: "last_step L = 1" and over: "?over"
  proof -
    have L1: "?L1 = L\<lparr>last_step := 2\<rparr>"
      using over last by simp
    have "\<not> running tmax s (?L1\<lparr>ret_value := ?c\<rparr>) (fst ?m1)"
      unfolding L1 by (simp add: running_def)
    then have "integrate_loop B X fl tmax maxR minD s (?L1\<lparr>ret_value := ?c\<rparr>) ?m1 =
        Some (Returned (ret_value (?L1\<lparr>ret_value := ?c\<rparr>)) (finish X (?L1\<lparr>ret_value := ?c\<rparr>) ?m1))"
      by (rule integrate_loop_stop)
    also have "\<dots> = Some (Returned ?c (finish X L ?m1))"
      unfolding L1 by simp
    finally show ?thesis
      using iter [OF run n bounds] by simp
  qed
  have restore: "r_dt (fst (finish X L ?m1)) = dt_last_done L"
    by (simp add: finish_def)
  have land: "r_t (fst (finish X L ?m1)) = fl (r_t (fst m) + fl (tmax - r_t (fst m)))"
    if over: "?over" and hooks: "\<forall>a u. r_t (X (hook a) u) = r_t u"
      and sync: "\<forall>u. r_t (X integrator_synchronize u) = r_t u"
      and step: "r_t (fst ?m2) = fl (r_t (fst m) + r_dt (fst m))"
      and trunc: "r_dt (fst m) = fl (tmax - r_t (fst m))"
  proof -
    have m1: "?m1 = call_post_timestep X
        (assign (\<lambda>r. r\<lparr>r_dt := fl (tmax - r_t r)\<rparr>) (call X integrator_synchronize ?m2))"
      using over by simp
    have "r_t (fst (finish X L ?m1)) = r_t (fst ?m1)"
      using sync by (simp add: finish_def)
    also have "\<dots> = r_t (fst ?m2)"
      unfolding m1 using hooks sync by (simp add: fst_call_post_timestep)
    also have "\<dots> = fl (r_t (fst m) + fl (tmax - r_t (fst m)))"
      using step trunc by simp
    finally show ?thesis .
  qed
  show ?thesis
    unfolding Let_def
    using iter stop final restore land by blast
qed

text \<open>
  Instances, with \<open>tmax = 1\<close> and both monitoring checks switched on. From time 5/8
  with the timestep 1/4, the step leads to 7/8, the test fires, the timestep becomes 1/8
  and \<^verbatim>\<open>last_step\<close> becomes 1. From time 7/8 with the timestep 1/8 and \<^verbatim>\<open>last_step\<close> equal
  to 1, the step is the last one, and the function returns 0 at time 1 with the timestep
  1/4. With \<^verbatim>\<open>last_step\<close> equal to 2 no step is made. The whole call from time 5/8 returns
  0 at time 1 with the timestep 1/4.
\<close>

theorem exact_finish_time_truncation_witness:
  "(let L = \<lparr>dt_last_done = 1 / 4, last_step = 0, ret_value = 0\<rparr>;
        m = (near_end, []);
        m1 = call_post_timestep X0
               (assign (\<lambda>r. r\<lparr>r_dt := round_double (1 - r_t r)\<rparr>)
                  (call X0 integrator_synchronize (rebound_step B0 X0 m)))
    in running 1 1 L (fst m) \<and> 0 < r_N (fst m) \<and> in_bounds (fst m1)
       \<and> integrate_loop B0 X0 round_double 1 20 2 1 L m =
           integrate_loop B0 X0 round_double 1 20 2 1
             \<lparr>dt_last_done = 1 / 4, last_step = 1, ret_value = 0\<rparr> m1
       \<and> r_t (fst m1) = 7 / 8 \<and> r_dt (fst m1) = 1 / 8)
   \<and> (let L = \<lparr>dt_last_done = 1 / 4, last_step = 1, ret_value = 0\<rparr>;
          m = (final_eighth, []);
          m1 = call_post_timestep X0
                 (assign (\<lambda>r. r\<lparr>r_dt := round_double (1 - r_t r)\<rparr>)
                    (call X0 integrator_synchronize (rebound_step B0 X0 m)))
      in running 1 1 L (fst m) \<and> 0 < r_N (fst m) \<and> in_bounds (fst m1)
         \<and> r_dt (fst m) = round_double (1 - r_t (fst m))
         \<and> integrate_loop B0 X0 round_double 1 20 2 1 L m = Some (Returned 0 (finish X0 L m1))
         \<and> r_dt (fst (finish X0 L m1)) = 1 / 4
         \<and> r_t (fst (finish X0 L m1)) = 1)
   \<and> integrate_loop B0 X0 round_double 1 20 2 1
        \<lparr>dt_last_done = 1 / 4, last_step = 2, ret_value = 0\<rparr> (final_eighth, []) =
      Some (Returned 0
        (finish X0 \<lparr>dt_last_done = 1 / 4, last_step = 2, ret_value = 0\<rparr> (final_eighth, [])))
   \<and> result_code (rebound_integrate B0 X0 round_double False 1 20 2 (near_end, [])) = Some 0
   \<and> map_option r_t (final_state (rebound_integrate B0 X0 round_double False 1 20 2
        (near_end, []))) = Some 1
   \<and> map_option r_dt (final_state (rebound_integrate B0 X0 round_double False 1 20 2
        (near_end, []))) = Some (1 / 4)"
proof -
  let ?L0 = "\<lparr>dt_last_done = 1 / 4, last_step = 0, ret_value = 0\<rparr>"
  let ?L1 = "\<lparr>dt_last_done = 1 / 4, last_step = 1, ret_value = 0\<rparr>"
  let ?L2 = "\<lparr>dt_last_done = 1 / 4, last_step = 2, ret_value = 0\<rparr>"
  let ?trunc = "\<lambda>m2. call_post_timestep X0
               (assign (\<lambda>r. r\<lparr>r_dt := round_double (1 - r_t r)\<rparr>)
                  (call X0 integrator_synchronize m2))"
  let ?m2 = "\<lambda>m :: unit mach.
      (if OPENGL B0 then call X0 display (rebound_step B0 X0 m) else rebound_step B0 X0 m)"
  let ?over = "\<lambda>m2 :: unit mach. round_double (r_t (fst m2) + r_dt (fst m2)) * 1 \<ge> 1 * 1
                \<and> exact_finish_time (fst m2) = 1"
  let ?m1 = "\<lambda>m. call_post_timestep X0
               (if ?over (?m2 m)
                then assign (\<lambda>r. r\<lparr>r_dt := round_double (1 - r_t r)\<rparr>)
                       (call X0 integrator_synchronize (?m2 m))
                else ?m2 m)"
  let ?L' = "\<lambda>L m. (if ?over (?m2 m) then L\<lparr>last_step := last_step L + 1\<rparr>
              else L\<lparr>dt_last_done := r_dt (fst (?m2 m))\<rparr>)"
  let ?c = "\<lambda>L m. (if encounter_found round_double 2 (fst (?m1 m)) then 3
             else if escape_found round_double 20 (fst (?m1 m)) then 2 else ret_value L)"
  let ?cs = "\<lambda>L m. (if encounter_found round_double 2 (fst (?trunc (rebound_step B0 X0 m))) then 3
             else if escape_found round_double 20 (fst (?trunc (rebound_step B0 X0 m))) then 2
             else ret_value L)"
  let ?a = "(near_end, [] :: unit log)"
  let ?b = "(final_eighth, [] :: unit log)"

  have a1: "?m1 ?a = ?trunc (rebound_step B0 X0 ?a)"
    and a2: "(?L' ?L0 ?a)\<lparr>ret_value := ?cs ?L0 ?a\<rparr> = ?L1"
    and a3: "r_t (fst (?trunc (rebound_step B0 X0 ?a))) = 7 / 8"
      "r_dt (fst (?trunc (rebound_step B0 X0 ?a))) = 1 / 8"
    by code_simp+
  have ha: "running 1 1 ?L0 (fst ?a) \<and> 0 < r_N (fst ?a) \<and> in_bounds (fst (?m1 ?a))"
    by code_simp
  have "integrate_loop B0 X0 round_double 1 20 2 1 ?L0 ?a =
      integrate_loop B0 X0 round_double 1 20 2 1
        ((?L' ?L0 ?a)\<lparr>ret_value := ?c ?L0 ?a\<rparr>) (?m1 ?a)"
    by (rule exact_finish_time_truncation [where B = B0 and X = X0 and fl = round_double
          and tmax = 1 and maxR = 20 and minD = 2 and s = 1 and L = ?L0 and m = ?a,
          unfolded Let_def, THEN conjunct1, THEN mp, OF ha])
  then have A: "integrate_loop B0 X0 round_double 1 20 2 1 ?L0 ?a =
      integrate_loop B0 X0 round_double 1 20 2 1 ?L1 (?trunc (rebound_step B0 X0 ?a))"
    by (simp only: a1 a2)
  have A': "running 1 1 ?L0 (fst ?a) \<and> 0 < r_N (fst ?a)
      \<and> in_bounds (fst (?trunc (rebound_step B0 X0 ?a)))"
    using ha by (simp only: a1)

  have b1: "?m1 ?b = ?trunc (rebound_step B0 X0 ?b)"
    and b2: "?cs ?L1 ?b = 0"
    and b3: "round_double (r_t (fst ?b) + round_double (1 - r_t (fst ?b))) = 1"
      "dt_last_done ?L1 = 1 / 4"
    by code_simp+
  have hb: "running 1 1 ?L1 (fst ?b) \<and> 0 < r_N (fst ?b) \<and> in_bounds (fst (?m1 ?b))
      \<and> last_step ?L1 = 1 \<and> ?over (?m2 ?b)"
    by code_simp
  have gb: "(\<forall>a u. r_t (X0 (hook a) u) = r_t u)
      \<and> (\<forall>u. r_t (X0 integrator_synchronize u) = r_t u)
      \<and> r_t (fst (?m2 ?b)) = round_double (r_t (fst ?b) + r_dt (fst ?b))
      \<and> r_dt (fst ?b) = round_double (1 - r_t (fst ?b))"
  proof (intro conjI)
    show "\<forall>a u. r_t (X0 (hook a) u) = r_t u" by simp
    show "\<forall>u. r_t (X0 integrator_synchronize u) = r_t u" by simp
    show "r_t (fst (?m2 ?b)) = round_double (r_t (fst ?b) + r_dt (fst ?b))" by code_simp
    show "r_dt (fst ?b) = round_double (1 - r_t (fst ?b))" by code_simp
  qed
  note T = exact_finish_time_truncation [where B = B0 and X = X0 and fl = round_double
          and tmax = 1 and maxR = 20 and minD = 2 and s = 1 and L = ?L1 and m = ?b,
          unfolded Let_def, THEN conjunct2, THEN conjunct2, THEN mp, OF hb]
  have "integrate_loop B0 X0 round_double 1 20 2 1 ?L1 ?b =
      Some (Returned (?c ?L1 ?b) (finish X0 ?L1 (?m1 ?b)))"
    by (rule T [THEN conjunct1])
  then have B1: "integrate_loop B0 X0 round_double 1 20 2 1 ?L1 ?b =
      Some (Returned 0 (finish X0 ?L1 (?trunc (rebound_step B0 X0 ?b))))"
    by (simp only: b1 b2)
  have "r_dt (fst (finish X0 ?L1 (?m1 ?b))) = dt_last_done ?L1"
    by (rule T [THEN conjunct2, THEN conjunct1])
  then have B2: "r_dt (fst (finish X0 ?L1 (?trunc (rebound_step B0 X0 ?b)))) = 1 / 4"
    by (simp only: b1 b3)
  have "r_t (fst (finish X0 ?L1 (?m1 ?b))) =
      round_double (r_t (fst ?b) + round_double (1 - r_t (fst ?b)))"
    by (rule T [THEN conjunct2, THEN conjunct2, THEN mp, OF gb])
  then have B3: "r_t (fst (finish X0 ?L1 (?trunc (rebound_step B0 X0 ?b)))) = 1"
    by (simp only: b1 b3)
  have B': "running 1 1 ?L1 (fst ?b) \<and> 0 < r_N (fst ?b)
      \<and> in_bounds (fst (?trunc (rebound_step B0 X0 ?b)))
      \<and> r_dt (fst ?b) = round_double (1 - r_t (fst ?b))"
    by code_simp

  have c1: "2 \<le> last_step ?L2" "ret_value ?L2 = 0"
    by simp_all
  have "integrate_loop B0 X0 round_double 1 20 2 1 ?L2 ?b =
      Some (Returned (ret_value ?L2) (finish X0 ?L2 ?b))"
    by (rule exact_finish_time_truncation [where B = B0 and X = X0 and fl = round_double
          and tmax = 1 and maxR = 20 and minD = 2 and s = 1 and L = ?L2 and m = ?b,
          unfolded Let_def, THEN conjunct2, THEN conjunct1, THEN mp, OF c1(1)])
  then have C: "integrate_loop B0 X0 round_double 1 20 2 1 ?L2 ?b =
      Some (Returned 0 (finish X0 ?L2 ?b))"
    by (simp only: c1(2))

  have D: "result_code (rebound_integrate B0 X0 round_double False 1 20 2 ?a) = Some 0
     \<and> map_option r_t (final_state (rebound_integrate B0 X0 round_double False 1 20 2 ?a))
         = Some 1
     \<and> map_option r_dt (final_state (rebound_integrate B0 X0 round_double False 1 20 2 ?a))
         = Some (1 / 4)"
    by code_simp
  show ?thesis
    unfolding Let_def
    using A A' a3 B1 B2 B3 B' C D by blast
qed

end
